theory Spec2Isabelle
  imports Main "HOL-Library.Sublist"
begin

section \<open>The output channel of create-output.ts\<close>

text \<open>
  The module keeps its state in the closure of \<open>_createOutput\<close>: the flag
  \<open>debugEnabled\<close>, the string \<open>spinnerMessage\<close> and the handle \<open>spinner\<close>.
  Everything else it does is an effect on the outside world: a write to the error
  stream, a call of the spinner driver, a reading of the clock. The model threads one
  record through every function; the record holds the three closure variables and the
  part of the world the module touches.
\<close>

subsection \<open>Values and effects\<close>

text \<open>
  A parameter that the caller may leave out, pass as \<open>null\<close> or pass as a string.
\<close>

datatype 'a optional = Undefined | Null | Val 'a

text \<open>JavaScript truthiness of such a value: only a non-empty string is truthy.\<close>

fun truthy :: "string optional \<Rightarrow> bool" where
  "truthy (Val s) = (s \<noteq> [])"
| "truthy _ = False"

text \<open>The same test for a parameter typed \<open>string | undefined\<close>.\<close>

fun truthy_opt :: "string option \<Rightarrow> bool" where
  "truthy_opt (Some s) = (s \<noteq> [])"
| "truthy_opt None = False"

text \<open>
  A JavaScript number, as far as the module uses one (the delay of a spinner is
  rendered in a template literal and handed on to \<open>wait\<close>): a whole number below
  \<open>10\<^sup>2\<^sup>1\<close> in magnitude is \<open>Whole i\<close>; any other number (a fraction, a larger
  magnitude, \<open>NaN\<close>, an infinity) is \<open>Other s\<close>, held by the string \<open>s\<close> that a
  template literal makes of it.

  What the module does to the world, in the order it does it. A spinner handle is
  the object returned by \<open>wait(message, delay)\<close>; handles are numbered in the order
  of their creation.
\<close>

datatype number = Whole int | Other string

datatype effect =
    Write string
  | SpinnerStart nat string number
  | SpinnerText nat string
  | SpinnerStop nat

fun is_write :: "effect \<Rightarrow> bool" where
  "is_write (Write _) = True"
| "is_write _ = False"

record channel =
  debugEnabled :: bool
  spinnerMessage :: string
  spinner :: "nat option"
  effects :: "effect list"
  handles :: nat
  times :: "nat \<Rightarrow> nat"
  ticks :: nat

text \<open>
  \<open>effects\<close> is the trace of effects so far, oldest first; \<open>handles\<close> counts the
  spinner handles created so far. The clock is an oracle: \<open>times c n\<close> is the time
  value (milliseconds since the epoch) that the \<open>n\<close>-th reading of the clock returns,
  and \<open>ticks\<close> counts the readings made.
\<close>

definition read_clock :: "channel \<Rightarrow> nat \<times> channel" where
  "read_clock c = (times c (ticks c), c\<lparr>ticks := Suc (ticks c)\<rparr>)"

definition emit :: "effect \<Rightarrow> channel \<Rightarrow> channel" where
  "emit e c = c\<lparr>effects := effects c @ [e]\<rparr>"

subsection \<open>The external collaborators\<close>

text \<open>
  The styling functions of chalk, the link renderer \<open>./link\<close> and the box renderer
  boxen are not part of the file; they are parameters of the model.
  \<open>grey\<close> stands for both \<open>chalk.grey\<close> and \<open>chalk.gray\<close>, which chalk defines as
  the same style; \<open>bold_yellow\<close> is \<open>chalk.bold.yellow\<close> of \<open>warn\<close>, and
  \<open>yellow_bold\<close> the style \<open>{yellow.bold ...}\<close> of the template in \<open>note\<close>.
  \<open>boxen E text ov\<close> stands for the call of boxen on \<open>text\<close> with
  the fixed padding and border colour of \<open>warn\<close>, overridden by the caller's
  options \<open>ov\<close>.

  What the model leaves out: a write to the error stream always succeeds; the task
  handed to \<open>time\<close> and the label functions do not call the channel themselves, and
  a label function returns its string; the clock never reads a time before the
  epoch.
\<close>

record 'o env =
  grey :: "string \<Rightarrow> string"
  bold :: "string \<Rightarrow> string"
  bold_yellow :: "string \<Rightarrow> string"
  yellow_bold :: "string \<Rightarrow> string"
  red :: "string \<Rightarrow> string"
  cyan :: "string \<Rightarrow> string"
  renderLink :: "string \<Rightarrow> string"
  boxen :: "string \<Rightarrow> 'o option \<Rightarrow> string"

definition newline :: string where
  "newline = [CHR 0x0A]"


subsection \<open>Numbers as strings\<close>

text \<open>
  The template literals of the module turn numbers into strings. For an integer
  (below \<open>10\<^sup>2\<^sup>1\<close> in magnitude) JavaScript writes the decimal digits, with a minus
  sign when negative.
\<close>

definition digit_char :: "nat \<Rightarrow> char" where
  "digit_char n = ''0123456789'' ! (n mod 10)"

fun show_nat :: "nat \<Rightarrow> string" where
  "show_nat n = (if n < 10 then [digit_char n] else show_nat (n div 10) @ [digit_char (n mod 10)])"

definition show_int :: "int \<Rightarrow> string" where
  "show_int i = (if i < 0 then ''-'' @ show_nat (nat (- i)) else show_nat (nat i))"

text \<open>A number in a template literal.\<close>

fun number_string :: "number \<Rightarrow> string" where
  "number_string (Whole i) = show_int i"
| "number_string (Other s) = s"

text \<open>The last \<open>w\<close> decimal digits of \<open>n\<close>: \<open>n\<close> padded with zeros to width \<open>w\<close> when \<open>n < 10\<^sup>w\<close>.\<close>

fun digits :: "nat \<Rightarrow> nat \<Rightarrow> string" where
  "digits 0 n = []"
| "digits (Suc w) n = digits w (n div 10) @ [digit_char (n mod 10)]"

subsection \<open>The clock as a string: \<open>Date.prototype.toISOString\<close>\<close>

text \<open>
  \<open>debug\<close> stamps its line with \<open>new Date().toISOString()\<close>. The function belongs to
  the language, not to the module; it is modelled after its definition in the
  language standard, for a time value at or after the epoch: the days since
  1970-01-01 are counted off year by year, then month by month, in the proleptic
  Gregorian calendar, in UTC. A year up to 9999 is written with four digits, a later
  one with a plus sign and six.
\<close>

definition leap :: "nat \<Rightarrow> bool" where
  "leap y = (y mod 4 = 0 \<and> (y mod 100 \<noteq> 0 \<or> y mod 400 = 0))"

definition days_in_year :: "nat \<Rightarrow> nat" where
  "days_in_year y = (if leap y then 366 else 365)"

definition month_lengths :: "nat \<Rightarrow> nat list" where
  "month_lengths y = [31, if leap y then 29 else 28, 31, 30, 31, 30, 31, 31, 30, 31, 30, 31]"

function year_of :: "nat \<Rightarrow> nat \<Rightarrow> nat \<times> nat" where
  "year_of y d = (if d < days_in_year y then (y, d) else year_of (Suc y) (d - days_in_year y))"
  by pat_completeness auto
termination
  by (relation "measure snd") (auto simp: days_in_year_def)

fun month_of :: "nat list \<Rightarrow> nat \<Rightarrow> nat \<Rightarrow> nat \<times> nat" where
  "month_of [] m d = (m, d)"
| "month_of (l # ls) m d = (if d < l then (m, d) else month_of ls (Suc m) (d - l))"

definition year_string :: "nat \<Rightarrow> string" where
  "year_string y = (if y \<le> 9999 then digits 4 y else ''+'' @ digits 6 y)"

definition toISOString :: "nat \<Rightarrow> string" where
  "toISOString t =
     (case year_of 1970 (t div 86400000) of (y, doy) \<Rightarrow>
      case month_of (month_lengths y) 0 doy of (m, d) \<Rightarrow>
        year_string y @ ''-'' @ digits 2 (Suc m) @ ''-'' @ digits 2 (Suc d) @ ''T''
          @ digits 2 (t div 3600000 mod 24) @ '':'' @ digits 2 (t div 60000 mod 60) @ '':''
          @ digits 2 (t div 1000 mod 60) @ ''.'' @ digits 3 (t mod 1000) @ ''Z'')"

text \<open>The largest time value a \<open>Date\<close> can hold: 100,000,000 days after the epoch.\<close>

definition max_time :: nat where
  "max_time = 8640000000000000"

subsection \<open>The functions of the module\<close>

text \<open>
  \<open>stopSpinner\<close>, \<open>debug\<close>, \<open>log\<close> and \<open>print\<close> call each other in a cycle:
  \<open>print\<close> calls \<open>stopSpinner\<close>, whose debug branch calls \<open>debug\<close>, which calls
  \<open>log\<close>, which calls \<open>print\<close>.
\<close>

function stopSpinner :: "'o env \<Rightarrow> channel \<Rightarrow> channel"
  and debug :: "'o env \<Rightarrow> string \<Rightarrow> channel \<Rightarrow> channel"
  and log :: "'o env \<Rightarrow> string \<Rightarrow> (string \<Rightarrow> string) option \<Rightarrow> channel \<Rightarrow> channel"
  and print :: "'o env \<Rightarrow> string \<Rightarrow> channel \<Rightarrow> channel"
where
  "stopSpinner E c =
     (let c1 = (if debugEnabled c \<and> spinnerMessage c \<noteq> []
                then debug E (''Spinner stopped ('' @ spinnerMessage c @ '')'')
                       (c\<lparr>spinnerMessage := []\<rparr>)
                else c)
      in case spinner c1 of
           None \<Rightarrow> c1
         | Some h \<Rightarrow> (emit (SpinnerStop h) c1)\<lparr>spinner := None, spinnerMessage := []\<rparr>)"
| "debug E str c =
     (if debugEnabled c
      then (case read_clock c of (now, c1) \<Rightarrow>
              log E (bold E ''[debug]'' @ '' '' @ grey E (''['' @ toISOString now @ '']'')
                       @ '' '' @ str) None c1)
      else c)"
| "log E str color c =
     print E ((case color of None \<Rightarrow> grey E | Some f \<Rightarrow> f) ''>'' @ '' '' @ str @ newline) c"
| "print E str c = emit (Write str) (stopSpinner E c)"
  by pat_completeness auto
termination
  apply (relation "measure (\<lambda>x. case x of
            Inl (Inl (E, c)) \<Rightarrow> (if debugEnabled c \<and> spinnerMessage c \<noteq> [] then 4 else 0)
          | Inl (Inr (E, s, c)) \<Rightarrow> (if debugEnabled c \<and> spinnerMessage c \<noteq> [] then 4 else 0) + 3
          | Inr (Inl (E, s, f, c)) \<Rightarrow> (if debugEnabled c \<and> spinnerMessage c \<noteq> [] then 4 else 0) + 2
          | Inr (Inr (E, s, c)) \<Rightarrow> (if debugEnabled c \<and> spinnerMessage c \<noteq> [] then 4 else 0) + 1)")
      apply (auto simp: read_clock_def)
  done


text \<open>
  How a template literal renders a value that may be \<open>null\<close> or \<open>undefined\<close>.
\<close>

fun to_string :: "string optional \<Rightarrow> string" where
  "to_string (Val s) = s"
| "to_string Null = ''null''"
| "to_string Undefined = ''undefined''"

text \<open>A default parameter value replaces \<open>undefined\<close> and nothing else.\<close>

fun default_to :: "'a optional \<Rightarrow> 'a optional \<Rightarrow> 'a optional" where
  "default_to d Undefined = d"
| "default_to d x = x"

definition dim :: "'o env \<Rightarrow> string \<Rightarrow> (string \<Rightarrow> string) option \<Rightarrow> channel \<Rightarrow> channel" where
  "dim E str color c =
     print E ((case color of None \<Rightarrow> grey E | Some f \<Rightarrow> f) (''> '' @ str) @ newline) c"

definition warn ::
  "'o env \<Rightarrow> string \<Rightarrow> string optional \<Rightarrow> string optional \<Rightarrow> string optional \<Rightarrow> 'o option
     \<Rightarrow> channel \<Rightarrow> channel" where
  "warn E str slug0 link0 action0 options c =
     (let slug = default_to Null slug0;
          lnk = default_to Null link0;
          act = default_to (Val ''Learn More'') action0;
          details = (if truthy slug then Val (''https://err.sh/vercel/'' @ to_string slug) else lnk);
          c1 = print E
                 (boxen E
                    (bold_yellow E ''WARN! '' @ str @
                       (if truthy details
                        then newline @ to_string act @ '': '' @ renderLink E (to_string details)
                        else []))
                    options) c
      in print E newline c1)"

text \<open>\<open>note\<close> of the module; the name is a keyword here, hence the prime.\<close>

definition note' :: "'o env \<Rightarrow> string \<Rightarrow> channel \<Rightarrow> channel" where
  "note' E str c = log E (yellow_bold E ''NOTE:'' @ '' '' @ str) None c"

definition error ::
  "'o env \<Rightarrow> string \<Rightarrow> string option \<Rightarrow> string option \<Rightarrow> string option \<Rightarrow> channel \<Rightarrow> channel" where
  "error E str slug lnk action0 c =
     (let act = (case action0 of None \<Rightarrow> ''Learn More'' | Some a \<Rightarrow> a);
          c1 = print E (red E ''Error!'' @ '' '' @ str @ newline) c;
          details = (case slug of
                       Some sl \<Rightarrow> if sl \<noteq> [] then Some (''https://err.sh/vercel/'' @ sl) else lnk
                     | None \<Rightarrow> lnk)
      in case details of
           Some d \<Rightarrow> if d \<noteq> [] then print E (bold E act @ '': '' @ renderLink E d @ newline) c1 else c1
         | None \<Rightarrow> c1)"

text \<open>The argument of \<open>prettyError\<close>: an object with a message and, optionally, a link and an action.\<close>

record error_like =
  message :: string
  link :: "string option"
  action :: "string option"

definition prettyError :: "'o env \<Rightarrow> error_like \<Rightarrow> channel \<Rightarrow> channel" where
  "prettyError E err c = error E (message err) None (link err) (action err) c"

definition ready :: "'o env \<Rightarrow> string \<Rightarrow> channel \<Rightarrow> channel" where
  "ready E str c = print E (cyan E ''> Ready!'' @ '' '' @ str @ newline) c"

definition success :: "'o env \<Rightarrow> string \<Rightarrow> channel \<Rightarrow> channel" where
  "success E str c = print E (cyan E ''> Success!'' @ '' '' @ str @ newline) c"

definition isDebugEnabled :: "channel \<Rightarrow> bool" where
  "isDebugEnabled c = debugEnabled c"

text \<open>
  \<open>setSpinner\<close>: the delay is a number, 300 when left out.
  \<open>wait(message, delay)\<close> is the effect \<open>SpinnerStart\<close> and returns a new handle;
  the assignment to \<open>spinner.text\<close> is the effect \<open>SpinnerText\<close>.
\<close>

definition setSpinner :: "'o env \<Rightarrow> string \<Rightarrow> number option \<Rightarrow> channel \<Rightarrow> channel" where
  "setSpinner E msg delay0 c =
     (let delay = (case delay0 of None \<Rightarrow> Whole 300 | Some d \<Rightarrow> d);
          c1 = c\<lparr>spinnerMessage := msg\<rparr>
      in if debugEnabled c1
         then debug E (''Spinner invoked ('' @ msg @ '') with a '' @ number_string delay @ ''ms delay'') c1
         else (case spinner c1 of
                 Some h \<Rightarrow> emit (SpinnerText h msg) c1
               | None \<Rightarrow> (emit (SpinnerStart (handles c1) msg delay) c1)
                            \<lparr>spinner := Some (handles c1), handles := Suc (handles c1)\<rparr>))"


subsection \<open>\<open>time\<close> and the elapsed time as a string\<close>

text \<open>
  \<open>time\<close> formats a duration of at least 1000 milliseconds with
  \<open>(duration / 1000).toFixed(2)\<close>. The division is a division of double-precision
  numbers: its result is the double nearest to the exact quotient, ties to the even
  significand. \<open>toFixed(2)\<close> then takes the integer \<open>n\<close> nearest to a hundred times
  that double, the larger one of two equally near, and writes \<open>n\<close> with a point
  before its last two digits. Both steps are computed here exactly, on natural
  numbers: the double is held as its 53-bit significand \<open>m\<close> and the exponent \<open>k\<close>
  of the quotient, and stands for \<open>m * 2^k / 2^52\<close>. The duration is the
  difference of two time values, which is exact in double precision, and its
  quotient by 1000 is far below \<open>10\<^sup>2\<^sup>1\<close>, where \<open>toFixed\<close> would change its format.
\<close>

text \<open>For \<open>0 < b \<le> a\<close>: the \<open>k\<close> with \<open>b * 2^k \<le> a < b * 2^(k + 1)\<close>.\<close>

function binary_exponent :: "nat \<Rightarrow> nat \<Rightarrow> nat" where
  "binary_exponent a b = (if b = 0 \<or> a < 2 * b then 0 else Suc (binary_exponent a (2 * b)))"
  by pat_completeness auto
termination
  by (relation "measure (\<lambda>(a, b). a - b)") auto

definition round_half_even :: "nat \<Rightarrow> nat \<Rightarrow> nat" where
  "round_half_even n d =
     (let q = n div d; r = n mod d
      in if 2 * r < d then q else if d < 2 * r then Suc q else if even q then q else Suc q)"

definition double_div :: "nat \<Rightarrow> nat \<Rightarrow> nat \<times> nat" where
  "double_div a b =
     (let k = binary_exponent a b
      in (if k \<le> 52 then round_half_even (a * 2 ^ (52 - k)) b
          else round_half_even a (b * 2 ^ (k - 52)), k))"

definition hundredths :: "nat \<times> nat \<Rightarrow> nat" where
  "hundredths x = (case x of (m, k) \<Rightarrow> (100 * m * 2 ^ k + 2 ^ 51) div 2 ^ 52)"

definition toFixed2 :: "nat \<times> nat \<Rightarrow> string" where
  "toFixed2 x = (let n = hundredths x in show_nat (n div 100) @ ''.'' @ digits 2 (n mod 100))"

definition durationPretty :: "int \<Rightarrow> string" where
  "durationPretty duration =
     (if duration < 1000 then show_int duration @ ''ms''
      else toFixed2 (double_div (nat duration) 1000) @ ''s'')"

text \<open>
  A promise is modelled by the way it settles. The task handed to \<open>time\<close> is a
  promise or a function returning one; the call of such a function either throws
  (\<open>Inl e\<close>) or returns its promise (\<open>Inr p\<close>). The label is a string or a function
  of the result, called without a result for the start label.
\<close>

datatype ('e, 'a) promise = Rejected 'e | Resolved 'a

datatype ('e, 'a) task =
    Promise "('e, 'a) promise"
  | Thunk "unit \<Rightarrow> 'e + ('e, 'a) promise"

datatype 'a label = Label string | LabelFn "'a option \<Rightarrow> string"

text \<open>
  \<open>time\<close> is an async function: its own promise is rejected with \<open>e\<close> (\<open>Inl e\<close>) or
  resolved with \<open>r\<close> (\<open>Inr r\<close>). An exception thrown in its body, as by the call
  \<open>fn()\<close> in its first statement, rejects that promise at once: nothing after the
  statement is run. The two readings of \<open>Date.now()\<close> are two readings of the
  clock; the time that passes while the task is awaited is the difference the
  oracle gives them.
\<close>

text \<open>\<open>typeof fn === 'function' ? fn() : fn\<close>, which throws or has a promise as its value.\<close>

fun promise_of :: "('e, 'a) task \<Rightarrow> 'e + ('e, 'a) promise" where
  "promise_of (Thunk f) = f ()"
| "promise_of (Promise p) = Inr p"

text \<open>\<open>typeof label === 'function' ? label(r) : label\<close>, and \<open>label()\<close> for no result.\<close>

fun label_of :: "'a label \<Rightarrow> 'a option \<Rightarrow> string" where
  "label_of (LabelFn g) r = g r"
| "label_of (Label l) r = l"

definition time ::
  "'o env \<Rightarrow> 'a label \<Rightarrow> ('e, 'a) task \<Rightarrow> channel \<Rightarrow> ('e + 'a) \<times> channel" where
  "time E lbl fn c =
     (case promise_of fn of
        Inl e \<Rightarrow> (Inl e, c)
      | Inr promise \<Rightarrow>
          if debugEnabled c
          then (let startLabel = label_of lbl None;
                    c1 = debug E startLabel c
                in case read_clock c1 of (start, c2) \<Rightarrow>
                   (case promise of
                      Rejected e \<Rightarrow> (Inl e, c2)
                    | Resolved r \<Rightarrow>
                        (let endLabel = label_of lbl (Some r)
                         in case read_clock c2 of (finish, c3) \<Rightarrow>
                            (let duration = int finish - int start
                             in (Inr r, debug E (endLabel @ '' '' @ grey E (''['' @ durationPretty duration @ '']'')) c3)))))
          else (case promise of Rejected e \<Rightarrow> (Inl e, c) | Resolved r \<Rightarrow> (Inr r, c)))"

subsection \<open>Creating the channel and calling it\<close>

text \<open>
  \<open>_createOutput\<close>: the closure variables at their initial values, in a world whose
  clock is the oracle \<open>clk\<close> and in which nothing has happened yet.
\<close>

definition createOutput' :: "bool option \<Rightarrow> (nat \<Rightarrow> nat) \<Rightarrow> channel" where
  "createOutput' dbg clk =
     \<lparr>debugEnabled = (case dbg of None \<Rightarrow> False | Some b \<Rightarrow> b), spinnerMessage = [],
      spinner = None, effects = [], handles = 0, times = clk, ticks = 0\<rparr>"

text \<open>\<open>createOutput\<close>: the singleton. Only the first call creates a channel.\<close>

definition createOutput :: "bool option \<Rightarrow> (nat \<Rightarrow> nat) \<Rightarrow> channel option \<Rightarrow> channel" where
  "createOutput dbg clk inst = (case inst of None \<Rightarrow> createOutput' dbg clk | Some c \<Rightarrow> c)"

text \<open>The calls a client can make on the object that \<open>_createOutput\<close> returns.\<close>

datatype ('o, 'e, 'a) call =
    IsDebugEnabled
  | Print string
  | Log string "(string \<Rightarrow> string) option"
  | Warn string "string optional" "string optional" "string optional" "'o option"
  | Error string "string option" "string option" "string option"
  | PrettyError error_like
  | Ready string
  | Success string
  | Debug string
  | Dim string "(string \<Rightarrow> string) option"
  | Time "'a label" "('e, 'a) task"
  | Note string
  | Spinner string "number option"
  | StopSpinner

fun exec :: "'o env \<Rightarrow> ('o, 'e, 'a) call \<Rightarrow> channel \<Rightarrow> channel" where
  "exec E IsDebugEnabled c = c"
| "exec E (Print str) c = print E str c"
| "exec E (Log str color) c = log E str color c"
| "exec E (Warn str slug lnk act options) c = warn E str slug lnk act options c"
| "exec E (Error str slug lnk act) c = error E str slug lnk act c"
| "exec E (PrettyError err) c = prettyError E err c"
| "exec E (Ready str) c = ready E str c"
| "exec E (Success str) c = success E str c"
| "exec E (Debug str) c = debug E str c"
| "exec E (Dim str color) c = dim E str color c"
| "exec E (Time lbl fn) c = snd (time E lbl fn c)"
| "exec E (Note str) c = note' E str c"
| "exec E (Spinner msg delay) c = setSpinner E msg delay c"
| "exec E StopSpinner c = stopSpinner E c"

text \<open>A sequence of calls, one after the other.\<close>

fun run :: "'o env \<Rightarrow> ('o, 'e, 'a) call list \<Rightarrow> channel \<Rightarrow> channel" where
  "run E [] c = c"
| "run E (x # xs) c = run E xs (exec E x c)"

text \<open>The effects a step adds to the trace: what is in the trace after it and was not before.\<close>

definition new_effects :: "channel \<Rightarrow> channel \<Rightarrow> effect list" where
  "new_effects c c' = drop (length (effects c)) (effects c')"

text \<open>
  An environment and a clock to compute with: chalk with colours switched off, which
  returns its argument, a link renderer that returns the address, a box renderer that
  puts the text in square brackets, and a clock that starts at
  2026-11-02T12:00:00.000Z and advances by a second and a half at every reading.
\<close>

definition plain_env :: "unit env" where
  "plain_env = \<lparr>grey = (\<lambda>s. s), bold = (\<lambda>s. s), bold_yellow = (\<lambda>s. s), yellow_bold = (\<lambda>s. s),
     red = (\<lambda>s. s), cyan = (\<lambda>s. s), renderLink = (\<lambda>s. s),
     boxen = (\<lambda>s ov. ''['' @ s @ '']'')\<rparr>"

definition test_clock :: "nat \<Rightarrow> nat" where
  "test_clock n = 1793620800000 + 1500 * n"

text \<open>Two channels to compute with: one in which a spinner runs, one in debug mode.\<close>

definition spinning_channel :: channel where
  "spinning_channel = setSpinner plain_env ''Deploying'' None (createOutput' None test_clock)"

definition debug_channel :: channel where
  "debug_channel = createOutput' (Some True) test_clock"


subsection \<open>Notions the properties are stated with\<close>

text \<open>The line that \<open>debug\<close> hands to the error stream for the text \<open>str\<close> at the time \<open>t\<close>.\<close>

definition debug_line :: "'o env \<Rightarrow> nat \<Rightarrow> string \<Rightarrow> string" where
  "debug_line E t str =
     grey E ''>'' @ '' '' @ bold E ''[debug]'' @ '' '' @ grey E (''['' @ toISOString t @ '']'')
       @ '' '' @ str @ newline"

text \<open>The calls of the print family.\<close>

fun print_family :: "('o, 'e, 'a) call \<Rightarrow> bool" where
  "print_family (Print _) = True"
| "print_family (Log _ _) = True"
| "print_family (Dim _ _) = True"
| "print_family (Note _) = True"
| "print_family (Warn _ _ _ _ _) = True"
| "print_family (Error _ _ _ _) = True"
| "print_family (PrettyError _) = True"
| "print_family (Ready _) = True"
| "print_family (Success _) = True"
| "print_family (Debug _) = True"
| "print_family _ = False"

fun is_debug_call :: "('o, 'e, 'a) call \<Rightarrow> bool" where
  "is_debug_call (Debug _) = True"
| "is_debug_call _ = False"

text \<open>
  The spinner handles that a trace has started and not stopped, in the order of
  their start.
\<close>

fun active_handles :: "effect list \<Rightarrow> nat list \<Rightarrow> nat list" where
  "active_handles [] hs = hs"
| "active_handles (SpinnerStart h _ _ # es) hs = active_handles es (hs @ [h])"
| "active_handles (SpinnerStop h # es) hs = active_handles es (removeAll h hs)"
| "active_handles (_ # es) hs = active_handles es hs"

text \<open>
  A checker for the timestamps of ISO 8601 in the form \<open>toISOString\<close> writes:
  \<open>YYYY-MM-DDTHH:mm:ss.sssZ\<close>, the year with four digits or, as an expanded year,
  with a sign and six; the month between 1 and 12, the day within the month, the
  hour below 24, minute and second below 60.
\<close>

definition is_digit :: "char \<Rightarrow> bool" where
  "is_digit c = (c \<in> set ''0123456789'')"

definition digit_val :: "char \<Rightarrow> nat" where
  "digit_val c = of_char c - 48"

definition digits_val :: "string \<Rightarrow> nat" where
  "digits_val s = foldl (\<lambda>a c. 10 * a + digit_val c) 0 s"

definition read_digits :: "nat \<Rightarrow> string \<Rightarrow> (nat \<times> string) option" where
  "read_digits w s =
     (if w \<le> length s \<and> list_all is_digit (take w s) then Some (digits_val (take w s), drop w s)
      else None)"

definition read_char :: "char \<Rightarrow> string \<Rightarrow> string option" where
  "read_char x s = (case s of [] \<Rightarrow> None | y # r \<Rightarrow> if y = x then Some r else None)"

definition read_year :: "string \<Rightarrow> (nat \<times> string) option" where
  "read_year s =
     (case s of
        [] \<Rightarrow> None
      | x # r \<Rightarrow> if x = CHR ''+'' \<or> x = CHR ''-'' then read_digits 6 r else read_digits 4 s)"

definition parse_iso8601 :: "string \<Rightarrow> (nat \<times> nat \<times> nat \<times> nat \<times> nat \<times> nat \<times> nat) option" where
  "parse_iso8601 s0 =
     Option.bind (read_year s0) (\<lambda>(y, s1).
     Option.bind (read_char CHR ''-'' s1) (\<lambda>s2.
     Option.bind (read_digits 2 s2) (\<lambda>(mo, s3).
     Option.bind (read_char CHR ''-'' s3) (\<lambda>s4.
     Option.bind (read_digits 2 s4) (\<lambda>(d, s5).
     Option.bind (read_char CHR ''T'' s5) (\<lambda>s6.
     Option.bind (read_digits 2 s6) (\<lambda>(h, s7).
     Option.bind (read_char CHR '':'' s7) (\<lambda>s8.
     Option.bind (read_digits 2 s8) (\<lambda>(mi, s9).
     Option.bind (read_char CHR '':'' s9) (\<lambda>s10.
     Option.bind (read_digits 2 s10) (\<lambda>(sec, s11).
     Option.bind (read_char CHR ''.'' s11) (\<lambda>s12.
     Option.bind (read_digits 3 s12) (\<lambda>(ms, s13).
       if s13 = ''Z'' then Some (y, mo, d, h, mi, sec, ms) else None)))))))))))))"

definition iso8601_wf :: "string \<Rightarrow> bool" where
  "iso8601_wf s =
     (case parse_iso8601 s of
        None \<Rightarrow> False
      | Some (y, mo, d, h, mi, sec, ms) \<Rightarrow>
          1 \<le> mo \<and> mo \<le> 12 \<and> 1 \<le> d \<and> d \<le> month_lengths y ! (mo - 1)
            \<and> h < 24 \<and> mi < 60 \<and> sec < 60)"


text \<open>In debug mode a channel at rest has neither a handle nor a recorded message.\<close>

definition at_rest :: "channel \<Rightarrow> bool" where
  "at_rest c = (debugEnabled c \<and> spinner c = None \<and> spinnerMessage c = [])"


text \<open>The trace and the channel agree on the active handle.\<close>

definition handle_inv :: "channel \<Rightarrow> bool" where
  "handle_inv c = (active_handles (effects c) [] = (case spinner c of None \<Rightarrow> [] | Some h \<Rightarrow> [h]))"


section \<open>Properties\<close>

subsection \<open>The cycle of \<open>stopSpinner\<close>, \<open>debug\<close>, \<open>log\<close> and \<open>print\<close>, resolved\<close>

declare stopSpinner.simps [simp del] debug.simps [simp del] log.simps [simp del]
  print.simps [simp del]

declare binary_exponent.simps [simp del] year_of.simps [simp del] show_nat.simps [simp del]

text \<open>
  Without a message to trace, \<open>stopSpinner\<close> makes no call: it stops the handle, if
  there is one.
\<close>

lemma stopSpinner_quiet:
  "\<not> (debugEnabled c \<and> spinnerMessage c \<noteq> []) \<Longrightarrow>
   stopSpinner E c =
     (case spinner c of
        None \<Rightarrow> c
      | Some h \<Rightarrow> c\<lparr>spinnerMessage := [], spinner := None, effects := effects c @ [SpinnerStop h]\<rparr>)"
  by (subst stopSpinner.simps) (auto simp: emit_def split: option.splits)

text \<open>
  With a message to trace, the call of \<open>debug\<close> comes back to \<open>stopSpinner\<close> once,
  in a channel without a message; that inner call stops the handle, if there is one,
  before the trace is written.
\<close>

lemma stopSpinner_tracing:
  assumes "debugEnabled c" and "spinnerMessage c \<noteq> []"
  shows "stopSpinner E c =
     c\<lparr>spinnerMessage := [], spinner := None, ticks := Suc (ticks c),
       effects := effects c @ (case spinner c of None \<Rightarrow> [] | Some h \<Rightarrow> [SpinnerStop h])
         @ [Write (debug_line E (times c (ticks c)) (''Spinner stopped ('' @ spinnerMessage c @ '')''))]\<rparr>"
proof -
  let ?c0 = "c\<lparr>spinnerMessage := [], ticks := Suc (ticks c)\<rparr>"
  have inner: "stopSpinner E ?c0 =
     (case spinner c of
        None \<Rightarrow> ?c0
      | Some h \<Rightarrow> ?c0\<lparr>spinnerMessage := [], spinner := None, effects := effects c @ [SpinnerStop h]\<rparr>)"
    by (simp add: stopSpinner_quiet split: option.splits)
  have dbg: "debug E m (c\<lparr>spinnerMessage := []\<rparr>) =
     emit (Write (debug_line E (times c (ticks c)) m)) (stopSpinner E ?c0)" for m
    using assms by (simp add: debug.simps log.simps print.simps read_clock_def debug_line_def)
  show ?thesis
    using assms
    by (subst stopSpinner.simps) (simp add: dbg inner emit_def Let_def split: option.splits)
qed

lemma print_eq: "print E str c = emit (Write str) (stopSpinner E c)"
  by (simp add: print.simps)

lemma log_eq:
  "log E str color c =
     emit (Write ((case color of None \<Rightarrow> grey E | Some f \<Rightarrow> f) ''>'' @ '' '' @ str @ newline))
       (stopSpinner E c)"
  by (simp add: log.simps print.simps)

lemma debug_eq:
  "debug E str c =
     (if debugEnabled c
      then emit (Write (debug_line E (times c (ticks c)) str))
             (stopSpinner E (c\<lparr>ticks := Suc (ticks c)\<rparr>))
      else c)"
  by (simp add: debug.simps log.simps print.simps read_clock_def debug_line_def)

text \<open>What \<open>stopSpinner\<close> does to each field, in every channel.\<close>

text \<open>
  The calls of the cycle are well-founded: every call of one of the four functions
  is in the domain of the recursion.
\<close>

lemma stopSpinner_total: "stopSpinner_debug_log_print_dom x"
proof -
  let ?f = "\<lambda>c. if debugEnabled c \<and> spinnerMessage c \<noteq> [] then 4 else (0::nat)"
  let ?m = "\<lambda>x. case x of
            Inl (Inl (E, c)) \<Rightarrow> ?f c
          | Inl (Inr (E, s, c)) \<Rightarrow> ?f c + 3
          | Inr (Inl (E, s, g, c)) \<Rightarrow> ?f c + 2
          | Inr (Inr (E, s, c)) \<Rightarrow> ?f c + 1"
  have "wfp stopSpinner_debug_log_print_rel"
    unfolding wfp_def
    by (rule wf_subset [OF wf_measure [of ?m]])
       (auto elim!: stopSpinner_debug_log_print_rel.cases simp: read_clock_def)
  then show ?thesis by (rule accp_wfpD)
qed

lemma stopSpinner_effects:
  "effects (stopSpinner E c) =
     effects c @ (case spinner c of None \<Rightarrow> [] | Some h \<Rightarrow> [SpinnerStop h])
       @ (if debugEnabled c \<and> spinnerMessage c \<noteq> []
          then [Write (debug_line E (times c (ticks c)) (''Spinner stopped ('' @ spinnerMessage c @ '')''))]
          else [])"
  by (cases "debugEnabled c \<and> spinnerMessage c \<noteq> []")
     (auto simp: stopSpinner_tracing stopSpinner_quiet split: option.splits)

lemma stopSpinner_spinner [simp]: "spinner (stopSpinner E c) = None"
  by (cases "debugEnabled c \<and> spinnerMessage c \<noteq> []")
     (auto simp: stopSpinner_tracing stopSpinner_quiet split: option.splits)

lemma stopSpinner_debugEnabled [simp]: "debugEnabled (stopSpinner E c) = debugEnabled c"
  by (cases "debugEnabled c \<and> spinnerMessage c \<noteq> []")
     (auto simp: stopSpinner_tracing stopSpinner_quiet split: option.splits)

lemma stopSpinner_message:
  "spinner c \<noteq> None \<or> debugEnabled c \<Longrightarrow> spinnerMessage (stopSpinner E c) = []"
  by (cases "debugEnabled c \<and> spinnerMessage c \<noteq> []")
     (auto simp: stopSpinner_tracing stopSpinner_quiet split: option.splits)

lemma stopSpinner_rest [simp]:
  "handles (stopSpinner E c) = handles c" "times (stopSpinner E c) = times c"
  by (cases "debugEnabled c \<and> spinnerMessage c \<noteq> []";
      auto simp: stopSpinner_tracing stopSpinner_quiet split: option.splits)+


subsection \<open>Computing timestamps\<close>

lemma digits_Suc_numeral:
  "digits (Suc (Suc 0)) n = [digit_char (n div 10 mod 10), digit_char (n mod 10)]"
  "digits (Suc (Suc (Suc 0))) n =
     [digit_char (n div 100 mod 10), digit_char (n div 10 mod 10), digit_char (n mod 10)]"
  "digits (Suc (Suc (Suc (Suc 0)))) n =
     [digit_char (n div 1000 mod 10), digit_char (n div 100 mod 10),
      digit_char (n div 10 mod 10), digit_char (n mod 10)]"
  "digits (Suc (Suc (Suc (Suc (Suc (Suc 0)))))) n =
     [digit_char (n div 100000 mod 10), digit_char (n div 10000 mod 10),
      digit_char (n div 1000 mod 10), digit_char (n div 100 mod 10),
      digit_char (n div 10 mod 10), digit_char (n mod 10)]"
  by (simp_all add: div_mult2_eq [symmetric])

lemma digits_unfold:
  "digits 2 n = [digit_char (n div 10 mod 10), digit_char (n mod 10)]"
  "digits 3 n = [digit_char (n div 100 mod 10), digit_char (n div 10 mod 10), digit_char (n mod 10)]"
  "digits 4 n = [digit_char (n div 1000 mod 10), digit_char (n div 100 mod 10),
                 digit_char (n div 10 mod 10), digit_char (n mod 10)]"
  "digits 6 n = [digit_char (n div 100000 mod 10), digit_char (n div 10000 mod 10),
                 digit_char (n div 1000 mod 10), digit_char (n div 100 mod 10),
                 digit_char (n div 10 mod 10), digit_char (n mod 10)]"
proof -
  have n: "(2::nat) = Suc (Suc 0)" "(3::nat) = Suc (Suc (Suc 0))"
    "(4::nat) = Suc (Suc (Suc (Suc 0)))" "(6::nat) = Suc (Suc (Suc (Suc (Suc (Suc 0)))))"
    by simp_all
  show "digits 2 n = [digit_char (n div 10 mod 10), digit_char (n mod 10)]"
    by (subst n(1)) (rule digits_Suc_numeral)
  show "digits 3 n = [digit_char (n div 100 mod 10), digit_char (n div 10 mod 10), digit_char (n mod 10)]"
    by (subst n(2)) (rule digits_Suc_numeral)
  show "digits 4 n = [digit_char (n div 1000 mod 10), digit_char (n div 100 mod 10),
                 digit_char (n div 10 mod 10), digit_char (n mod 10)]"
    by (subst n(3)) (rule digits_Suc_numeral)
  show "digits 6 n = [digit_char (n div 100000 mod 10), digit_char (n div 10000 mod 10),
                 digit_char (n div 1000 mod 10), digit_char (n div 100 mod 10),
                 digit_char (n div 10 mod 10), digit_char (n mod 10)]"
    by (subst n(4)) (rule digits_Suc_numeral)
qed

lemmas calendar_eval = toISOString_def month_lengths_def leap_def days_in_year_def
  year_string_def digit_char_def digits_unfold year_of.simps

lemma test_clock_0: "toISOString (test_clock 0) = ''2026-11-02T12:00:00.000Z''"
  by (simp add: test_clock_def calendar_eval)

lemma test_clock_1: "toISOString (test_clock (Suc 0)) = ''2026-11-02T12:00:01.500Z''"
  by (simp add: test_clock_def calendar_eval)

subsection \<open>What \<open>print\<close> adds to the trace\<close>

lemma print_effects:
  "effects (print E str c) =
     effects c @ (case spinner c of None \<Rightarrow> [] | Some h \<Rightarrow> [SpinnerStop h])
       @ (if debugEnabled c \<and> spinnerMessage c \<noteq> []
          then [Write (debug_line E (times c (ticks c)) (''Spinner stopped ('' @ spinnerMessage c @ '')''))]
          else [])
       @ [Write str]"
  by (simp add: print_eq emit_def stopSpinner_effects)

lemma print_fields [simp]:
  "spinner (print E str c) = None" "debugEnabled (print E str c) = debugEnabled c"
  "handles (print E str c) = handles c" "times (print E str c) = times c"
  by (simp_all add: print_eq emit_def)

lemma print_message:
  "spinner c \<noteq> None \<or> debugEnabled c \<Longrightarrow> spinnerMessage (print E str c) = []"
  by (simp add: print_eq emit_def stopSpinner_message)

text \<open>After a spinner has been stopped by a first \<open>print\<close>, a second one only writes.\<close>

lemma print_after_print:
  "spinner c \<noteq> None \<or> debugEnabled c \<Longrightarrow>
   effects (print E s2 (print E s1 c)) = effects (print E s1 c) @ [Write s2]"
  by (simp add: print_effects [of E s2] print_message)

lemma print_stops_first:
  assumes "spinner c = Some h"
  shows "\<exists>ws. effects (print E str c) = effects c @ SpinnerStop h # ws \<and> ws \<noteq> []
            \<and> list_all is_write ws"
  using assms by (simp add: print_effects)


subsection \<open>Debug mode: the channel at rest\<close>

lemma spinning_channel_eq:
  "spinning_channel =
     \<lparr>debugEnabled = False, spinnerMessage = ''Deploying'', spinner = Some 0,
      effects = [SpinnerStart 0 ''Deploying'' (Whole 300)], handles = 1, times = test_clock, ticks = 0\<rparr>"
  by (simp add: spinning_channel_def setSpinner_def createOutput'_def emit_def)

lemma debug_at_rest:
  "at_rest c \<Longrightarrow>
   debug E str c = c\<lparr>ticks := Suc (ticks c), effects := effects c @ [Write (debug_line E (times c (ticks c)) str)]\<rparr>"
  by (simp add: at_rest_def debug_eq stopSpinner_quiet emit_def)

lemma print_at_rest:
  "at_rest c \<Longrightarrow> print E str c = c\<lparr>effects := effects c @ [Write str]\<rparr>"
  by (simp add: at_rest_def print_eq stopSpinner_quiet emit_def)

lemma at_rest_update [simp]:
  "at_rest (c\<lparr>effects := es\<rparr>) = at_rest c" "at_rest (c\<lparr>ticks := n\<rparr>) = at_rest c"
  by (simp_all add: at_rest_def)

lemma debug_keeps_rest: "at_rest c \<Longrightarrow> at_rest (debug E str c)"
  by (simp add: debug_at_rest)

lemma print_keeps_rest: "at_rest c \<Longrightarrow> at_rest (print E str c)"
  by (simp add: print_at_rest)

lemma setSpinner_at_rest:
  "at_rest c \<Longrightarrow> at_rest (setSpinner E msg delay c)"
  by (simp add: setSpinner_def Let_def at_rest_def debug_eq emit_def stopSpinner_message)

lemma time_keeps_rest: "at_rest c \<Longrightarrow> at_rest (snd (time E lbl fn c))"
  by (simp add: time_def Let_def read_clock_def debug_at_rest at_rest_def [of c]
        split: sum.splits promise.splits)

lemma exec_keeps_rest: "at_rest c \<Longrightarrow> at_rest (exec E x c)"
proof (cases x)
  case (Warn str slug lnk act options)
  assume "at_rest c" then show ?thesis
    by (simp add: Warn warn_def Let_def print_keeps_rest)
next
  case (Error str slug lnk act)
  assume "at_rest c" then show ?thesis
    by (simp add: Error error_def Let_def print_keeps_rest split: option.splits)
next
  case (PrettyError e)
  assume "at_rest c" then show ?thesis
    by (simp add: PrettyError prettyError_def error_def Let_def print_keeps_rest split: option.splits)
next
  case (Time lbl fn)
  assume "at_rest c" then show ?thesis by (simp add: Time time_keeps_rest)
next
  case StopSpinner
  assume "at_rest c" then show ?thesis by (simp add: StopSpinner at_rest_def stopSpinner_quiet)
qed (simp_all add: print_keeps_rest debug_keeps_rest setSpinner_at_rest log.simps dim_def
       ready_def success_def note'_def)

lemma run_keeps_rest: "at_rest c \<Longrightarrow> at_rest (run E xs c)"
  by (induction xs arbitrary: c) (simp_all add: exec_keeps_rest)

lemma run_debug_at_rest: "at_rest (run E xs (createOutput' (Some True) clk))"
  by (rule run_keeps_rest) (simp add: at_rest_def createOutput'_def)

subsection \<open>Rounding in the elapsed time\<close>

lemma binary_exponent_bounds:
  "0 < b \<Longrightarrow> b \<le> a \<Longrightarrow>
   b * 2 ^ binary_exponent a b \<le> a \<and> a < b * 2 ^ Suc (binary_exponent a b)"
proof (induction a b rule: binary_exponent.induct)
  case (1 a b)
  show ?case
  proof (cases "a < 2 * b")
    case True
    with "1.prems" show ?thesis by (simp add: binary_exponent.simps [of a b])
  next
    case False
    with "1.prems" have "2 * b * 2 ^ binary_exponent a (2 * b) \<le> a
        \<and> a < 2 * b * 2 ^ Suc (binary_exponent a (2 * b))"
      by (intro "1.IH") auto
    with False "1.prems" show ?thesis
      by (simp add: binary_exponent.simps [of a b] mult_ac)
  qed
qed

lemma round_half_even_bounds:
  assumes "0 < d"
  shows "2 * d * round_half_even n d \<le> 2 * n + d \<and> 2 * n \<le> 2 * d * round_half_even n d + d"
proof -
  have n: "n = d * (n div d) + n mod d" by simp
  have r: "n mod d < d" using assms by simp
  define q where "q = n div d"
  define r where "r = n mod d"
  have n': "n = d * q + r" and r': "r < d" using n r by (simp_all add: q_def r_def)
  show ?thesis
    unfolding round_half_even_def Let_def q_def [symmetric] r_def [symmetric]
    using r' by (auto simp: n' algebra_simps)
qed

lemma hundredths_small:
  assumes "k \<le> 51"
  shows "hundredths (m, k) = (100 * m + 2 ^ (51 - k)) div 2 ^ (52 - k)"
proof -
  have a: "(2::nat) ^ 51 = 2 ^ (51 - k) * 2 ^ k" and b: "(2::nat) ^ 52 = 2 ^ (52 - k) * 2 ^ k"
    using assms by (simp_all add: power_add [symmetric])
  have "hundredths (m, k) = ((100 * m + 2 ^ (51 - k)) * 2 ^ k) div (2 ^ (52 - k) * 2 ^ k)"
    unfolding hundredths_def by (simp only: prod.case a [symmetric] b [symmetric] add_mult_distrib)
  then show ?thesis by simp
qed

lemma hundredths_near:
  assumes "1000 \<le> d" and "d \<le> max_time"
  shows "10 * hundredths (double_div d 1000) \<le> d + 5 \<and> d \<le> 10 * hundredths (double_div d 1000) + 5"
proof -
  define k where "k = binary_exponent d 1000"
  define P :: nat where "P = 2 ^ (52 - k)"
  define m where "m = round_half_even (d * P) 1000"
  define n where "n = hundredths (m, k)"
  have kb: "1000 * 2 ^ k \<le> d"
    using binary_exponent_bounds [of 1000 d] assms(1) by (simp add: k_def)
  have "(2::nat) ^ k < 2 ^ 44"
  proof -
    have "1000 * (2::nat) ^ k < 1000 * 2 ^ 44" using kb assms(2) by (simp add: max_time_def)
    then show ?thesis by simp
  qed
  then have k44: "k < 44" by (simp only: power_strict_increasing_iff)
  have dd: "double_div d 1000 = (m, k)"
    using k44 by (simp add: double_div_def Let_def k_def [symmetric] m_def P_def)
  have "(2::nat) ^ 9 \<le> 2 ^ (52 - k)" using k44 by (intro power_increasing) auto
  then have P512: "512 \<le> P" by (simp add: P_def)
  have half: "2 * 2 ^ (51 - k) = P" using k44 by (simp add: P_def power_Suc [symmetric] Suc_diff_le del: power_Suc)
  have mb: "2 * 1000 * m \<le> 2 * (d * P) + 1000 \<and> 2 * (d * P) \<le> 2 * 1000 * m + 1000"
    unfolding m_def by (rule round_half_even_bounds) simp
  have nq: "n = (100 * m + 2 ^ (51 - k)) div P"
    using k44 by (simp add: n_def hundredths_small P_def)
  have Ppos: "0 < P" by (simp add: P_def)
  have n1: "P * n \<le> 100 * m + 2 ^ (51 - k)"
    unfolding nq by simp
  have n2: "100 * m + 2 ^ (51 - k) < P * n + P"
    unfolding nq using Ppos
    by (metis dividend_less_times_div mult.commute add.commute)
  have up: "10 * n * P < (d + 6) * P"
    using n1 mb half P512 by (simp add: algebra_simps)
  have lo: "d * P < (10 * n + 6) * P"
    using n2 mb half P512 by (simp add: algebra_simps)
  from up have "10 * n < d + 6" by simp
  moreover from lo have "d < 10 * n + 6" by simp
  ultimately show ?thesis by (simp add: dd n_def [symmetric])
qed

subsection \<open>Reading back the digits of a timestamp\<close>

lemma digit_table:
  fixes k :: nat
  assumes "k < 10"
  shows "''0123456789'' ! k \<in> set ''0123456789'' \<and> of_char (''0123456789'' ! k) = 48 + k"
proof -
  from assms have "k = 0 \<or> k = 1 \<or> k = 2 \<or> k = 3 \<or> k = 4
    \<or> k = 5 \<or> k = 6 \<or> k = 7 \<or> k = 8 \<or> k = 9"
    by arith
  then show ?thesis
    by (elim disjE) simp_all
qed

lemma digit_char_cases:
  "digit_char n \<in> set ''0123456789'' \<and> of_char (digit_char n) = 48 + n mod 10"
  unfolding digit_char_def by (rule digit_table) simp

lemma is_digit_digit_char [simp]: "is_digit (digit_char n)"
  using digit_char_cases [of n] by (simp add: is_digit_def)

lemma digit_val_digit_char [simp]: "digit_val (digit_char n) = n mod 10"
  using digit_char_cases [of n] by (simp add: digit_val_def)

lemma digit_char_not_sign [simp]: "digit_char n \<noteq> CHR ''+''" "digit_char n \<noteq> CHR ''-''"
  using digit_char_cases [of n] by auto

lemma length_digits [simp]: "length (digits w n) = w"
  by (induction w arbitrary: n) simp_all

lemma all_digits [simp]: "list_all is_digit (digits w n)"
  by (induction w arbitrary: n) simp_all

lemma digits_val_snoc: "digits_val (s @ [x]) = 10 * digits_val s + digit_val x"
  by (simp add: digits_val_def)

lemma digits_val_digits: "digits_val (digits w n) = n mod 10 ^ w"
proof (induction w arbitrary: n)
  case 0
  show ?case by (simp add: digits_val_def)
next
  case (Suc w)
  have "n mod (10 * 10 ^ w) = 10 * (n div 10 mod 10 ^ w) + n mod 10"
    by (simp add: mod_mult2_eq)
  with Suc show ?case by (simp add: digits_val_snoc)
qed

lemma read_digits_digits:
  "n < 10 ^ w \<Longrightarrow> read_digits w (digits w n @ rest) = Some (n, rest)"
  by (simp add: read_digits_def digits_val_digits)

lemma read_char_Cons [simp]: "read_char x (x # r) = Some r"
  by (simp add: read_char_def)

lemma hd_digits_not_sign:
  "0 < w \<Longrightarrow> digits w n @ rest = x # r \<Longrightarrow> x \<noteq> CHR ''+'' \<and> x \<noteq> CHR ''-''"
proof (induction w arbitrary: n x r rest)
  case 0
  then show ?case by simp
next
  case (Suc w)
  show ?case
  proof (cases w)
    case 0
    with Suc.prems show ?thesis by auto
  next
    case (Suc v)
    with Suc.prems Suc.IH [of "n div 10" "digit_char (n mod 10) # rest" x r] show ?thesis
      by simp
  qed
qed

lemma read_year_year_string:
  assumes "y < 1000000"
  shows "read_year (year_string y @ rest) = Some (y, rest)"
proof (cases "y \<le> 9999")
  case True
  obtain x r where xr: "digits 4 y @ rest = x # r"
    by (cases "digits 4 y @ rest") (simp_all add: digits_unfold)
  with hd_digits_not_sign [of 4 y rest x r] have "x \<noteq> CHR ''+'' \<and> x \<noteq> CHR ''-''" by simp
  with True xr read_digits_digits [of y 4 rest] show ?thesis
    by (simp add: read_year_def year_string_def)
next
  case False
  with assms read_digits_digits [of y 6 rest] show ?thesis
    by (simp add: read_year_def year_string_def)
qed

subsection \<open>The calendar stays in range\<close>

lemma year_of_bounds:
  "year_of y d = (y', d') \<Longrightarrow> d' < days_in_year y' \<and> y \<le> y' \<and> y' \<le> y + d div 365"
proof (induction y d arbitrary: y' d' rule: year_of.induct)
  case (1 y d)
  show ?case
  proof (cases "d < days_in_year y")
    case True
    with "1.prems" show ?thesis by (simp add: year_of.simps [of y d])
  next
    case False
    with "1.prems" have "year_of (Suc y) (d - days_in_year y) = (y', d')"
      by (simp add: year_of.simps [of y d])
    with False have ih: "d' < days_in_year y' \<and> Suc y \<le> y' \<and> y' \<le> Suc y + (d - days_in_year y) div 365"
      by (intro "1.IH") auto
    have "365 \<le> days_in_year y" by (simp add: days_in_year_def)
    moreover from False have "365 \<le> d" by (simp add: days_in_year_def split: if_splits)
    then have "d div 365 = Suc ((d - 365) div 365)" by (simp add: le_div_geq)
    moreover have "(d - days_in_year y) div 365 \<le> (d - 365) div 365"
      by (intro div_le_mono diff_le_mono2) (simp add: days_in_year_def)
    ultimately have "Suc ((d - days_in_year y) div 365) \<le> d div 365" by simp
    with ih show ?thesis by simp
  qed
qed

lemma month_of_bounds:
  "d < sum_list ls \<Longrightarrow> month_of ls m d = (m', d') \<Longrightarrow>
   m \<le> m' \<and> m' < m + length ls \<and> d' < ls ! (m' - m)"
proof (induction ls arbitrary: m d)
  case Nil
  then show ?case by simp
next
  case (Cons l ls)
  show ?case
  proof (cases "d < l")
    case True
    with Cons.prems show ?thesis by simp
  next
    case False
    with Cons.prems have "d - l < sum_list ls" "month_of ls (Suc m) (d - l) = (m', d')"
      by simp_all
    from Cons.IH [OF this] show ?thesis
      by (auto simp: nth_Cons' Suc_diff_le)
  qed
qed

lemma sum_month_lengths: "sum_list (month_lengths y) = days_in_year y"
  by (simp add: month_lengths_def days_in_year_def)

lemma length_month_lengths [simp]: "length (month_lengths y) = 12"
  by (simp add: month_lengths_def)

lemma month_lengths_le: "m < 12 \<Longrightarrow> month_lengths y ! m \<le> 31"
proof -
  assume "m < 12"
  then have "m = 0 \<or> m = 1 \<or> m = 2 \<or> m = 3 \<or> m = 4 \<or> m = 5 \<or> m = 6 \<or> m = 7
     \<or> m = 8 \<or> m = 9 \<or> m = 10 \<or> m = 11" by arith
  then show ?thesis by (elim disjE) (simp_all add: month_lengths_def)
qed

lemma parse_toISOString:
  assumes t: "t \<le> max_time"
    and y: "year_of 1970 (t div 86400000) = (y, doy)"
    and m: "month_of (month_lengths y) 0 doy = (m, d)"
  shows "parse_iso8601 (toISOString t) =
           Some (y, Suc m, Suc d, t div 3600000 mod 24, t div 60000 mod 60, t div 1000 mod 60,
                 t mod 1000)
         \<and> m < 12 \<and> d < month_lengths y ! m"
proof -
  from year_of_bounds [OF y] have doy: "doy < days_in_year y" and yb: "y \<le> 1970 + t div 86400000 div 365"
    by simp_all
  from t have "t div 86400000 div 365 \<le> 273972"
    by (simp add: max_time_def div_mult2_eq [symmetric])
  with yb have y6: "y < 1000000" by simp
  from month_of_bounds [OF _ m] doy have mb: "m < 12" and db: "d < month_lengths y ! m"
    by (simp_all add: sum_month_lengths)
  from month_lengths_le [OF mb, of y] db have d31: "d < 31" by simp
  have r2: "n < 100 \<Longrightarrow> read_digits 2 (digits 2 n @ rest) = Some (n, rest)" for n rest
    using read_digits_digits [of n 2 rest] by simp
  have r3: "n < 1000 \<Longrightarrow> read_digits 3 (digits 3 n @ rest) = Some (n, rest)" for n rest
    using read_digits_digits [of n 3 rest] by simp
  have "parse_iso8601 (toISOString t) =
           Some (y, Suc m, Suc d, t div 3600000 mod 24, t div 60000 mod 60, t div 1000 mod 60,
                 t mod 1000)"
    using mb d31
    by (simp add: toISOString_def y m parse_iso8601_def read_year_year_string [OF y6] r2 r3)
  with mb db show ?thesis by simp
qed

lemma toISOString_wf: "t \<le> max_time \<Longrightarrow> iso8601_wf (toISOString t)"
proof -
  assume t: "t \<le> max_time"
  obtain y doy where y: "year_of 1970 (t div 86400000) = (y, doy)" by force
  obtain m d where m: "month_of (month_lengths y) 0 doy = (m, d)" by force
  from parse_toISOString [OF t y m] show ?thesis
    by (simp add: iso8601_wf_def)
qed

subsection \<open>The clock oracle is never replaced, and what a debug line contains\<close>

lemma debug_times [simp]: "times (debug E str c) = times c"
  by (simp add: debug_eq emit_def)

lemma log_times [simp]: "times (log E str color c) = times c"
  by (simp add: log_eq emit_def)

lemma time_times [simp]: "times (snd (time E lbl fn c)) = times c"
  by (simp add: time_def Let_def read_clock_def split: sum.splits promise.splits)

lemma exec_times [simp]: "times (exec E x c) = times c"
  by (cases x)
     (simp_all add: warn_def error_def prettyError_def ready_def success_def dim_def note'_def
        setSpinner_def Let_def emit_def split: option.splits)

lemma run_times [simp]: "times (run E xs c) = times c"
  by (induction xs arbitrary: c) simp_all

lemma debug_line_contains:
  "sublist (bold E ''[debug]'') (debug_line E t str)"
  "sublist (grey E (''['' @ toISOString t @ '']'')) (debug_line E t str)"
  "suffix newline (debug_line E t str)"
proof -
  have "debug_line E t str = (grey E ''>'' @ '' '') @ bold E ''[debug]''
      @ ('' '' @ grey E (''['' @ toISOString t @ '']'') @ '' '' @ str @ newline)"
    by (simp add: debug_line_def)
  then show "sublist (bold E ''[debug]'') (debug_line E t str)"
    by (simp only: sublist_appendI)
  have "debug_line E t str = (grey E ''>'' @ '' '' @ bold E ''[debug]'' @ '' '')
      @ grey E (''['' @ toISOString t @ '']'') @ ('' '' @ str @ newline)"
    by (simp add: debug_line_def)
  then show "sublist (grey E (''['' @ toISOString t @ '']'')) (debug_line E t str)"
    by (simp only: sublist_appendI)
  have "debug_line E t str = (grey E ''>'' @ '' '' @ bold E ''[debug]'' @ '' ''
      @ grey E (''['' @ toISOString t @ '']'') @ '' '' @ str) @ newline"
    by (simp add: debug_line_def)
  then show "suffix newline (debug_line E t str)"
    by (simp only: suffix_appendI suffix_order.refl)
qed


subsection \<open>A computed history in debug mode\<close>

lemma test_clock_2: "toISOString (test_clock 2) = ''2026-11-02T12:00:03.000Z''"
  by (simp add: test_clock_def calendar_eval)

lemma show_int_300: "show_int 300 = ''300''"
  by (simp add: show_int_def show_nat.simps digit_char_def)

text \<open>The channel after \<open>spinner('Deploying')\<close> in debug mode, computed.\<close>

lemma debug_spinner_run:
  "setSpinner plain_env ''Deploying'' None debug_channel =
     debug_channel
       \<lparr>ticks := 2,
        effects :=
          [Write (''> [debug] [2026-11-02T12:00:01.500Z] Spinner stopped (Deploying)'' @ newline),
           Write (''> [debug] [2026-11-02T12:00:00.000Z] Spinner invoked (Deploying) with a 300ms delay''
                    @ newline)]\<rparr>"
  by (simp add: setSpinner_def debug_channel_def createOutput'_def debug_eq stopSpinner_tracing
        emit_def debug_line_def plain_env_def test_clock_0 test_clock_1 show_int_300)

lemma debug_history:
  "run plain_env [Spinner ''Deploying'' None, StopSpinner :: (unit, unit, unit) call]
     (createOutput' (Some True) test_clock) =
     debug_channel
       \<lparr>ticks := 2,
        effects :=
          [Write (''> [debug] [2026-11-02T12:00:01.500Z] Spinner stopped (Deploying)'' @ newline),
           Write (''> [debug] [2026-11-02T12:00:00.000Z] Spinner invoked (Deploying) with a 300ms delay''
                    @ newline)]\<rparr>"
proof -
  have "run plain_env [Spinner ''Deploying'' None, StopSpinner :: (unit, unit, unit) call]
     (createOutput' (Some True) test_clock)
      = stopSpinner plain_env (setSpinner plain_env ''Deploying'' None debug_channel)"
    by (simp add: debug_channel_def)
  also have "\<dots> = setSpinner plain_env ''Deploying'' None debug_channel"
  proof -
    have "at_rest (setSpinner plain_env ''Deploying'' None debug_channel)"
      by (rule setSpinner_at_rest) (simp add: at_rest_def debug_channel_def createOutput'_def)
    then show ?thesis by (simp add: at_rest_def stopSpinner_quiet)
  qed
  finally show ?thesis by (simp only: debug_spinner_run)
qed


subsection \<open>\<open>time\<close> in a channel at rest\<close>

lemma durationPretty_seconds:
  assumes "1000 \<le> d" and "d \<le> int max_time"
  shows "\<exists>n. durationPretty d = show_nat (n div 100) @ ''.'' @ digits 2 (n mod 100) @ ''s''
             \<and> 10 * int n \<le> d + 5 \<and> d \<le> 10 * int n + 5"
proof -
  let ?n = "hundredths (double_div (nat d) 1000)"
  from assms have "1000 \<le> nat d" "nat d \<le> max_time" by simp_all
  from hundredths_near [OF this] assms(1)
  have "10 * int ?n \<le> d + 5 \<and> d \<le> 10 * int ?n + 5" by linarith
  moreover from assms(1)
  have "durationPretty d = show_nat (?n div 100) @ ''.'' @ digits 2 (?n mod 100) @ ''s''"
    by (simp add: durationPretty_def toFixed2_def Let_def)
  ultimately show ?thesis by blast
qed

lemma time_at_rest:
  assumes "at_rest c" and "promise_of fn = Inr (Resolved r)"
  shows "time E lbl fn c =
     (Inr r,
      c\<lparr>ticks := ticks c + 4,
        effects := effects c @
          [Write (debug_line E (times c (ticks c)) (label_of lbl None)),
           Write (debug_line E (times c (ticks c + 3))
                    (label_of lbl (Some r) @ '' '' @
                     grey E (''['' @ durationPretty (int (times c (ticks c + 2)) - int (times c (ticks c + 1)))
                              @ '']'')))]\<rparr>)"
  using assms
  by (simp add: time_def Let_def read_clock_def debug_at_rest at_rest_def [of c] eval_nat_numeral)


lemma test_clock_5: "toISOString (test_clock 5) = ''2026-11-02T12:00:07.500Z''"
  by (simp add: test_clock_def calendar_eval)


subsection \<open>What \<open>warn\<close> and \<open>error\<close> add to the trace\<close>

lemma new_effects_print:
  "new_effects c (print E s c) = new_effects c (stopSpinner E c) @ [Write s]"
  by (simp add: new_effects_def print_effects stopSpinner_effects)

lemma print_twice:
  "effects (print E s2 (print E s1 c)) = effects (print E s1 c) @ [Write s2]"
proof (cases "spinner c \<noteq> None \<or> debugEnabled c")
  case True
  then show ?thesis by (rule print_after_print)
next
  case False
  then show ?thesis by (simp add: print_effects [of E s2])
qed

lemma new_effects_print_twice:
  "new_effects c (print E s2 (print E s1 c)) = new_effects c (stopSpinner E c) @ [Write s1, Write s2]"
  by (simp add: new_effects_def print_twice) (simp add: print_effects stopSpinner_effects)

text \<open>What \<open>warn\<close> and \<open>error\<close> add to the trace, after what \<open>stopSpinner\<close> adds.\<close>

lemma warn_effects:
  "new_effects c (warn E str slug lnk act options c) =
     new_effects c (stopSpinner E c) @
       [Write (boxen E
           (bold_yellow E ''WARN! '' @ str @
              (if truthy slug
               then newline @ to_string (default_to (Val ''Learn More'') act) @ '': ''
                      @ renderLink E (''https://err.sh/vercel/'' @ to_string slug)
               else if truthy lnk
               then newline @ to_string (default_to (Val ''Learn More'') act) @ '': ''
                      @ renderLink E (to_string lnk)
               else []))
           options),
        Write newline]"
  by (cases slug; cases lnk) (simp_all add: warn_def Let_def new_effects_print_twice)

lemma error_effects:
  "new_effects c (error E str slug lnk act c) =
     new_effects c (stopSpinner E c) @
       Write (red E ''Error!'' @ '' '' @ str @ newline) #
       (if truthy_opt slug
        then [Write (bold E (case act of None \<Rightarrow> ''Learn More'' | Some a \<Rightarrow> a) @ '': ''
                       @ renderLink E (''https://err.sh/vercel/'' @ the slug) @ newline)]
        else if truthy_opt lnk
        then [Write (bold E (case act of None \<Rightarrow> ''Learn More'' | Some a \<Rightarrow> a) @ '': ''
                       @ renderLink E (the lnk) @ newline)]
        else [])"
  by (cases slug; cases lnk)
     (simp_all add: error_def Let_def new_effects_print_twice new_effects_print)

lemma plain_channel_quiet:
  "new_effects (createOutput' None test_clock) (stopSpinner E (createOutput' None test_clock)) = []"
  by (simp add: stopSpinner_quiet createOutput'_def new_effects_def)

lemma plain_env_simps:
  "grey plain_env s = s" "bold plain_env s = s" "bold_yellow plain_env s = s"
  "yellow_bold plain_env s = s" "red plain_env s = s" "cyan plain_env s = s"
  "renderLink plain_env s = s" "boxen plain_env s ov = ''['' @ s @ '']''"
  by (simp_all add: plain_env_def)


lemma sublist_in_middle: "sublist u m \<Longrightarrow> sublist u (p @ m @ q)"
  by (meson sublist_appendI sublist_order.order.trans)


lemma plain_box_visible: "sublist t (boxen plain_env t ov)"
  using sublist_appendI [of t "''[''" "'']''"] by (simp add: plain_env_simps)


subsection \<open>One spinner handle at a time\<close>

text \<open>At most one handle is active at any time, and it is the one the channel holds.\<close>

lemma active_handles_append:
  "active_handles (es @ es') hs = active_handles es' (active_handles es hs)"
  by (induction es hs rule: active_handles.induct) simp_all

lemma active_handles_writes: "list_all is_write ws \<Longrightarrow> active_handles ws hs = hs"
  by (induction ws hs rule: active_handles.induct) simp_all

lemma handle_inv_ticks [simp]: "handle_inv (c\<lparr>ticks := n\<rparr>) = handle_inv c"
  by (simp add: handle_inv_def)

lemma handle_inv_stopSpinner: "handle_inv c \<Longrightarrow> handle_inv (stopSpinner E c)"
  by (auto simp: handle_inv_def stopSpinner_effects active_handles_append split: option.splits)

lemma handle_inv_print: "handle_inv c \<Longrightarrow> handle_inv (print E s c)"
  using handle_inv_stopSpinner [of c E]
  by (simp add: print_eq emit_def handle_inv_def active_handles_append)

lemma handle_inv_debug: "handle_inv c \<Longrightarrow> handle_inv (debug E s c)"
  using handle_inv_stopSpinner [of "c\<lparr>ticks := Suc (ticks c)\<rparr>" E]
  by (simp add: debug_eq emit_def handle_inv_def active_handles_append)

lemma handle_inv_setSpinner: "handle_inv c \<Longrightarrow> handle_inv (setSpinner E msg delay c)"
proof (cases "debugEnabled c")
  case True
  assume "handle_inv c"
  then have "handle_inv (c\<lparr>spinnerMessage := msg\<rparr>)" by (simp add: handle_inv_def)
  from handle_inv_debug [OF this] True show ?thesis by (simp add: setSpinner_def)
next
  case False
  assume "handle_inv c"
  with False show ?thesis
    by (auto simp: setSpinner_def handle_inv_def emit_def active_handles_append split: option.splits)
qed

lemma handle_inv_time: "handle_inv c \<Longrightarrow> handle_inv (snd (time E lbl fn c))"
  by (simp add: time_def Let_def read_clock_def handle_inv_debug split: sum.splits promise.splits)

lemma handle_inv_exec: "handle_inv c \<Longrightarrow> handle_inv (exec E x c)"
  by (cases x)
     (simp_all add: handle_inv_print handle_inv_debug handle_inv_setSpinner handle_inv_time
        handle_inv_stopSpinner log.simps warn_def error_def prettyError_def ready_def success_def
        dim_def note'_def Let_def split: option.splits)

lemma one_active_handle:
  "handle_inv (run E xs (createOutput' dbg clk))
   \<and> length (active_handles (effects (run E xs (createOutput' dbg clk))) []) \<le> 1"
proof -
  have "handle_inv c \<Longrightarrow> handle_inv (run E xs c)" for c
    by (induction xs arbitrary: c) (simp_all add: handle_inv_exec)
  moreover have "handle_inv (createOutput' dbg clk)"
    by (simp add: handle_inv_def createOutput'_def)
  ultimately have "handle_inv (run E xs (createOutput' dbg clk))" by blast
  then show ?thesis by (simp add: handle_inv_def split: option.splits)
qed

subsection \<open>\<open>stopSpinner\<close> with nothing to stop\<close>

text \<open>
  Claim C7. In a channel without a spinner handle and, when debug mode is enabled,
  without a recorded spinner message, \<open>stopSpinner\<close> returns the channel as it
  found it: it writes nothing, there is no failure it could raise, and no field
  changes. In every channel a second call of \<open>stopSpinner\<close> changes nothing after
  the first.
\<close>

theorem stopSpinner_no_op:
  "(spinner c = None \<and> (debugEnabled c \<longrightarrow> spinnerMessage c = [])
      \<longrightarrow> stopSpinner E c = c \<and> new_effects c (stopSpinner E c) = [])
   \<and> stopSpinner E (stopSpinner E c) = stopSpinner E c"
proof (cases "debugEnabled c \<and> spinnerMessage c \<noteq> []")
  case True
  then show ?thesis
    by (simp add: stopSpinner_tracing stopSpinner_quiet)
next
  case False
  then show ?thesis
    by (auto simp: stopSpinner_quiet new_effects_def split: option.splits)
qed

theorem stopSpinner_no_op_witness:
  "spinner (createOutput' (Some True) test_clock) = None
   \<and> debugEnabled (createOutput' (Some True) test_clock)
   \<and> spinnerMessage (createOutput' (Some True) test_clock) = []
   \<and> stopSpinner plain_env (createOutput' (Some True) test_clock) = createOutput' (Some True) test_clock
   \<and> new_effects (createOutput' (Some True) test_clock)
        (stopSpinner plain_env (createOutput' (Some True) test_clock)) = []"
proof -
  have "spinner (createOutput' (Some True) test_clock) = None
    \<and> debugEnabled (createOutput' (Some True) test_clock)
    \<and> spinnerMessage (createOutput' (Some True) test_clock) = []"
    by (simp add: createOutput'_def)
  with stopSpinner_no_op [of "createOutput' (Some True) test_clock" plain_env]
  show ?thesis by blast
qed


subsection \<open>\<open>stopSpinner\<close> terminates and traces at most once\<close>

text \<open>
  Claim C10. \<open>stopSpinner\<close> terminates in every channel: every call is in the
  domain of the recursion through \<open>debug\<close>, \<open>log\<close> and \<open>print\<close>. A call writes at
  most once to the error stream. When debug mode is enabled, a message is recorded and
  there is no handle, the call that comes back from \<open>print\<close> finds the message
  already cleared and returns its channel unchanged, so that the whole call writes
  the one line "Spinner stopped".
\<close>

theorem stopSpinner_terminates_one_trace:
  "stopSpinner_debug_log_print_dom (Inl (Inl (E, c)))
   \<and> length (filter is_write (new_effects c (stopSpinner E c))) \<le> 1
   \<and> (debugEnabled c \<and> spinnerMessage c \<noteq> [] \<and> spinner c = None \<longrightarrow>
        stopSpinner E (c\<lparr>spinnerMessage := [], ticks := Suc (ticks c)\<rparr>)
          = c\<lparr>spinnerMessage := [], ticks := Suc (ticks c)\<rparr>
        \<and> stopSpinner E c =
            emit (Write (debug_line E (times c (ticks c))
                           (''Spinner stopped ('' @ spinnerMessage c @ '')'')))
              (c\<lparr>spinnerMessage := [], ticks := Suc (ticks c)\<rparr>))"
proof (intro conjI impI)
  show "stopSpinner_debug_log_print_dom (Inl (Inl (E, c)))"
    by (rule stopSpinner_total)
  show "length (filter is_write (new_effects c (stopSpinner E c))) \<le> 1"
    by (simp add: new_effects_def stopSpinner_effects split: option.splits)
next
  assume h: "debugEnabled c \<and> spinnerMessage c \<noteq> [] \<and> spinner c = None"
  then show "stopSpinner E (c\<lparr>spinnerMessage := [], ticks := Suc (ticks c)\<rparr>)
          = c\<lparr>spinnerMessage := [], ticks := Suc (ticks c)\<rparr>"
    by (simp add: stopSpinner_quiet)
  from h show "stopSpinner E c =
            emit (Write (debug_line E (times c (ticks c))
                           (''Spinner stopped ('' @ spinnerMessage c @ '')'')))
              (c\<lparr>spinnerMessage := [], ticks := Suc (ticks c)\<rparr>)"
    by (simp add: stopSpinner_tracing emit_def)
qed

theorem stopSpinner_terminates_one_trace_witness:
  "debugEnabled ((createOutput' (Some True) test_clock)\<lparr>spinnerMessage := ''Deploying''\<rparr>)
   \<and> spinnerMessage ((createOutput' (Some True) test_clock)\<lparr>spinnerMessage := ''Deploying''\<rparr>) \<noteq> []
   \<and> spinner ((createOutput' (Some True) test_clock)\<lparr>spinnerMessage := ''Deploying''\<rparr>) = None
   \<and> stopSpinner plain_env ((createOutput' (Some True) test_clock)\<lparr>spinnerMessage := ''Deploying''\<rparr>)
       = (createOutput' (Some True) test_clock)
           \<lparr>ticks := 1,
            effects := [Write (''> [debug] [2026-11-02T12:00:00.000Z] Spinner stopped (Deploying)'' @ newline)]\<rparr>"
proof -
  let ?c = "(createOutput' (Some True) test_clock)\<lparr>spinnerMessage := ''Deploying''\<rparr>"
  have h: "debugEnabled ?c \<and> spinnerMessage ?c \<noteq> [] \<and> spinner ?c = None"
    by (simp add: createOutput'_def)
  from stopSpinner_terminates_one_trace [of plain_env ?c] h
  have "stopSpinner plain_env ?c =
            emit (Write (debug_line plain_env (times ?c (ticks ?c))
                           (''Spinner stopped ('' @ spinnerMessage ?c @ '')'')))
              (?c\<lparr>spinnerMessage := [], ticks := Suc (ticks ?c)\<rparr>)"
    by blast
  then have "stopSpinner plain_env ?c = (createOutput' (Some True) test_clock)
           \<lparr>ticks := 1,
            effects := [Write (''> [debug] [2026-11-02T12:00:00.000Z] Spinner stopped (Deploying)'' @ newline)]\<rparr>"
    by (simp add: createOutput'_def emit_def debug_line_def plain_env_def test_clock_0)
  with h show ?thesis by blast
qed


subsection \<open>Printing stops the spinner first\<close>

text \<open>
  Claim C1. Every call of the print family (\<open>print\<close>, \<open>log\<close>, \<open>dim\<close>, \<open>note\<close>,
  \<open>warn\<close>, \<open>error\<close>, \<open>prettyError\<close>, \<open>ready\<close>, \<open>success\<close>, and \<open>debug\<close> when debug
  mode is enabled), made in any channel in which a spinner is active, first stops
  that spinner: the first effect the call adds is the stop of the handle, every
  effect after it is a write to the error stream, there is at least one, and the
  channel holds no handle afterwards.
\<close>

theorem print_family_stops_spinner_first:
  assumes "print_family x" and "spinner c = Some h" and "is_debug_call x \<longrightarrow> debugEnabled c"
  shows "(\<exists>ws. effects (exec E x c) = effects c @ SpinnerStop h # ws \<and> ws \<noteq> []
            \<and> list_all is_write ws)
         \<and> spinner (exec E x c) = None"
proof -
  have one: "(\<exists>ws. effects (print E str c) = effects c @ SpinnerStop h # ws \<and> ws \<noteq> []
            \<and> list_all is_write ws) \<and> spinner (print E str c) = None" for str
    using assms(2) by (simp add: print_effects)
  have two: "(\<exists>ws. effects (print E s2 (print E s1 c)) = effects c @ SpinnerStop h # ws \<and> ws \<noteq> []
            \<and> list_all is_write ws) \<and> spinner (print E s2 (print E s1 c)) = None" for s1 s2
    using assms(2) by (simp add: print_after_print) (simp add: print_effects)
  have lg: "log E str color c = print E ((case color of None \<Rightarrow> grey E | Some f \<Rightarrow> f) ''>'' @ '' '' @ str @ newline) c"
    for str color
    by (simp add: log_eq print_eq)
  have dbg: "debugEnabled c \<Longrightarrow> (\<exists>ws. effects (debug E str c) = effects c @ SpinnerStop h # ws \<and> ws \<noteq> []
            \<and> list_all is_write ws) \<and> spinner (debug E str c) = None" for str
    using assms(2) by (simp add: debug_eq emit_def stopSpinner_effects)
  have err: "(\<exists>ws. effects (error E str slug lnk act c) = effects c @ SpinnerStop h # ws \<and> ws \<noteq> []
            \<and> list_all is_write ws) \<and> spinner (error E str slug lnk act c) = None" for str slug lnk act
    unfolding error_def Let_def using one two by (simp split: option.splits)
  show ?thesis
  proof (cases x)
    case (Print str) then show ?thesis using one by simp
  next
    case (Log str color) then show ?thesis using one by (simp add: lg)
  next
    case (Warn str slug lnk act options)
    then show ?thesis using two by (simp add: warn_def Let_def)
  next
    case (Error str slug lnk act) then show ?thesis using err by simp
  next
    case (PrettyError e) then show ?thesis using err by (simp add: prettyError_def)
  next
    case (Ready str) then show ?thesis using one by (simp add: ready_def)
  next
    case (Success str) then show ?thesis using one by (simp add: success_def)
  next
    case (Debug str) then show ?thesis using dbg assms(3) by simp
  next
    case (Dim str color) then show ?thesis using one by (simp add: dim_def)
  next
    case (Note str) then show ?thesis using one by (simp add: note'_def lg)
  qed (use assms(1) in simp_all)
qed

theorem print_family_stops_spinner_first_witness:
  "print_family (Warn ''oops'' (Val ''my-slug'') Undefined Undefined None :: (unit, unit, unit) call)
   \<and> spinner spinning_channel = Some 0
   \<and> \<not> is_debug_call (Warn ''oops'' (Val ''my-slug'') Undefined Undefined None :: (unit, unit, unit) call)
   \<and> (\<exists>ws. effects (exec plain_env
                  (Warn ''oops'' (Val ''my-slug'') Undefined Undefined None :: (unit, unit, unit) call)
                  spinning_channel)
              = effects spinning_channel @ SpinnerStop 0 # ws \<and> ws \<noteq> [] \<and> list_all is_write ws)
   \<and> spinner (exec plain_env
                 (Warn ''oops'' (Val ''my-slug'') Undefined Undefined None :: (unit, unit, unit) call)
                 spinning_channel) = None
   \<and> effects (exec plain_env
                 (Warn ''oops'' (Val ''my-slug'') Undefined Undefined None :: (unit, unit, unit) call)
                 spinning_channel)
       = [SpinnerStart 0 ''Deploying'' (Whole 300), SpinnerStop 0,
          Write (''[WARN! oops'' @ newline @ ''Learn More: https://err.sh/vercel/my-slug]''),
          Write newline]"
proof -
  let ?x = "Warn ''oops'' (Val ''my-slug'') Undefined Undefined None :: (unit, unit, unit) call"
  have h: "print_family ?x" "spinner spinning_channel = Some 0"
    "is_debug_call ?x \<longrightarrow> debugEnabled spinning_channel"
    by (simp_all add: spinning_channel_eq)
  have e: "effects (exec plain_env ?x spinning_channel)
       = [SpinnerStart 0 ''Deploying'' (Whole 300), SpinnerStop 0,
          Write (''[WARN! oops'' @ newline @ ''Learn More: https://err.sh/vercel/my-slug]''),
          Write newline]"
    by (simp add: warn_def Let_def print_twice print_effects plain_env_simps)
       (simp add: spinning_channel_eq)
  from print_family_stops_spinner_first [OF h, of plain_env] h(1,2) e
  show ?thesis by simp
qed


subsection \<open>\<open>time\<close> and a task that fails\<close>

text \<open>
  Claim C4. A task fails in one of two ways: the function handed to \<open>time\<close> throws
  \<open>e\<close> when it is called, or the promise is rejected with \<open>e\<close>. In both, \<open>time\<close>
  fails with the same \<open>e\<close>. When the function throws, \<open>time\<close> leaves the channel
  as it found it, with or without debug mode: there is no start trace and no end
  trace. When the promise is rejected: without debug mode \<open>time\<close> leaves the channel
  as it found it; in debug mode it does what the start trace does and reads the
  clock once more, nothing else, so that in a channel at rest the one line it
  writes is the start trace, and no end trace follows.
\<close>

theorem time_propagates_failure:
  "(promise_of fn = Inl e \<longrightarrow> time E lbl fn c = (Inl e, c))
   \<and> (promise_of fn = Inr (Rejected e) \<longrightarrow>
        time E lbl fn c =
          (Inl e, if debugEnabled c then snd (read_clock (debug E (label_of lbl None) c)) else c)
        \<and> (at_rest c \<longrightarrow>
              new_effects c (snd (time E lbl fn c))
                = [Write (debug_line E (times c (ticks c)) (label_of lbl None))])
        \<and> (\<not> debugEnabled c \<longrightarrow> new_effects c (snd (time E lbl fn c)) = []))"
  by (auto simp: time_def Let_def read_clock_def debug_at_rest new_effects_def at_rest_def [of c]
           split: prod.splits)

theorem time_propagates_failure_witness:
  "promise_of (Thunk (\<lambda>_. Inl ''boom'') :: (string, nat) task) = Inl ''boom''
   \<and> debugEnabled debug_channel
   \<and> time plain_env (Label ''x'') (Thunk (\<lambda>_. Inl ''boom'') :: (string, nat) task) debug_channel
       = (Inl ''boom'', debug_channel)
   \<and> promise_of (Thunk (\<lambda>_. Inr (Rejected ''boom'')) :: (string, nat) task) = Inr (Rejected ''boom'')
   \<and> at_rest debug_channel
   \<and> fst (time plain_env (Label ''x'') (Thunk (\<lambda>_. Inr (Rejected ''boom'')) :: (string, nat) task)
            debug_channel) = Inl ''boom''
   \<and> new_effects debug_channel
        (snd (time plain_env (Label ''x'') (Thunk (\<lambda>_. Inr (Rejected ''boom'')) :: (string, nat) task)
               debug_channel))
       = [Write (''> [debug] [2026-11-02T12:00:00.000Z] x'' @ newline)]
   \<and> \<not> debugEnabled (createOutput' None test_clock)
   \<and> time plain_env (Label ''x'') (Thunk (\<lambda>_. Inr (Rejected ''boom'')) :: (string, nat) task)
            (createOutput' None test_clock) = (Inl ''boom'', createOutput' None test_clock)"
proof -
  let ?th = "Thunk (\<lambda>_. Inl ''boom'') :: (string, nat) task"
  let ?fn = "Thunk (\<lambda>_. Inr (Rejected ''boom'')) :: (string, nat) task"
  let ?lbl = "Label ''x'' :: nat label"
  have q: "promise_of ?th = Inl ''boom''" by simp
  have p: "promise_of ?fn = Inr (Rejected ''boom'')" by simp
  have r: "at_rest debug_channel" by (simp add: at_rest_def debug_channel_def createOutput'_def)
  have g: "debugEnabled debug_channel" by (simp add: debug_channel_def createOutput'_def)
  have n: "\<not> debugEnabled (createOutput' None test_clock)" by (simp add: createOutput'_def)
  have l: "debug_line plain_env (times debug_channel (ticks debug_channel)) (label_of ?lbl None)
      = ''> [debug] [2026-11-02T12:00:00.000Z] x'' @ newline"
    using test_clock_0 by (simp add: debug_line_def plain_env_def debug_channel_def createOutput'_def)
  have thrown: "time plain_env ?lbl ?th debug_channel = (Inl ''boom'', debug_channel)"
    by (rule time_propagates_failure [of ?th "''boom''" plain_env ?lbl debug_channel,
          THEN conjunct1, THEN mp, OF q])
  note t = time_propagates_failure [of ?fn "''boom''" plain_env ?lbl debug_channel,
          THEN conjunct2, THEN mp, OF p]
  from t have "fst (time plain_env ?lbl ?fn debug_channel) = Inl ''boom''"
    by simp
  moreover have "new_effects debug_channel (snd (time plain_env ?lbl ?fn debug_channel))
       = [Write (debug_line plain_env (times debug_channel (ticks debug_channel))
                   (label_of ?lbl None))]"
    by (rule t [THEN conjunct2, THEN conjunct1, THEN mp, OF r])
  then have "new_effects debug_channel (snd (time plain_env ?lbl ?fn debug_channel))
       = [Write (''> [debug] [2026-11-02T12:00:00.000Z] x'' @ newline)]"
    by (simp only: l)
  moreover from time_propagates_failure [of ?fn "''boom''" plain_env ?lbl "createOutput' None test_clock",
          THEN conjunct2, THEN mp, OF p] n
  have "time plain_env ?lbl ?fn (createOutput' None test_clock)
      = (Inl ''boom'', createOutput' None test_clock)"
    by simp
  ultimately show ?thesis using q p r g n thrown by blast
qed


subsection \<open>\<open>debug\<close>\<close>

text \<open>
  Claim C6. Without debug mode \<open>debug\<close> returns the channel as it found it, for
  every text: nothing is written. With debug mode, after any sequence of calls on a
  channel created with the debug option, a call of \<open>debug\<close> adds exactly one effect, a
  write of one line that ends in a newline. The line contains the tag \<open>[debug]\<close> as
  chalk renders it, so it contains the literal tag when chalk keeps the tag
  visible; it contains the timestamp in the same way, and the timestamp of a time
  value that a \<open>Date\<close> can hold passes the ISO 8601 checker.
\<close>

theorem debug_writes_tagged_timestamp:
  "(\<not> debugEnabled c \<longrightarrow> debug E str c = c)
   \<and> (let c' = run E xs (createOutput' (Some True) clk); t = clk (ticks c')
      in new_effects c' (debug E str c') = [Write (debug_line E t str)]
         \<and> suffix newline (debug_line E t str)
         \<and> (sublist ''[debug]'' (bold E ''[debug]'') \<longrightarrow> sublist ''[debug]'' (debug_line E t str))
         \<and> (sublist (toISOString t) (grey E (''['' @ toISOString t @ '']''))
              \<longrightarrow> sublist (toISOString t) (debug_line E t str))
         \<and> (t \<le> max_time \<longrightarrow> iso8601_wf (toISOString t)))"
proof -
  let ?c = "run E xs (createOutput' (Some True) clk)"
  let ?t = "clk (ticks ?c)"
  have rest: "at_rest ?c" by (rule run_debug_at_rest)
  have clk: "times ?c = clk" by (simp add: createOutput'_def)
  have "new_effects ?c (debug E str ?c) = [Write (debug_line E (times ?c (ticks ?c)) str)]"
    by (simp add: debug_at_rest [OF rest] new_effects_def del: run_times)
  then have "new_effects ?c (debug E str ?c) = [Write (debug_line E ?t str)]"
    by (simp only: clk)
  moreover have "sublist ''[debug]'' (debug_line E ?t str)" if "sublist ''[debug]'' (bold E ''[debug]'')"
    using that debug_line_contains(1) [of E ?t str] by (rule sublist_order.order.trans)
  moreover have "sublist (toISOString ?t) (debug_line E ?t str)"
    if "sublist (toISOString ?t) (grey E (''['' @ toISOString ?t @ '']''))"
    using that debug_line_contains(2) [of E ?t str] by (rule sublist_order.order.trans)
  moreover have "\<not> debugEnabled c \<longrightarrow> debug E str c = c"
    by (simp add: debug_eq)
  ultimately show ?thesis
    using debug_line_contains(3) [of E ?t str] toISOString_wf [of ?t]
    by (simp add: Let_def)
qed

theorem debug_writes_tagged_timestamp_witness:
  "\<not> debugEnabled (createOutput' None test_clock)
   \<and> debug plain_env ''hello'' (createOutput' None test_clock) = createOutput' None test_clock
   \<and> sublist ''[debug]'' (bold plain_env ''[debug]'')
   \<and> sublist (toISOString (test_clock 2)) (grey plain_env (''['' @ toISOString (test_clock 2) @ '']''))
   \<and> test_clock 2 \<le> max_time
   \<and> new_effects
        (run plain_env [Spinner ''Deploying'' None, StopSpinner :: (unit, unit, unit) call]
           (createOutput' (Some True) test_clock))
        (debug plain_env ''hello''
           (run plain_env [Spinner ''Deploying'' None, StopSpinner :: (unit, unit, unit) call]
              (createOutput' (Some True) test_clock)))
       = [Write (''> [debug] [2026-11-02T12:00:03.000Z] hello'' @ newline)]
   \<and> sublist ''[debug]'' (''> [debug] [2026-11-02T12:00:03.000Z] hello'' @ newline)
   \<and> sublist ''2026-11-02T12:00:03.000Z'' (''> [debug] [2026-11-02T12:00:03.000Z] hello'' @ newline)
   \<and> iso8601_wf ''2026-11-02T12:00:03.000Z''"
proof -
  let ?xs = "[Spinner ''Deploying'' None, StopSpinner :: (unit, unit, unit) call]"
  let ?c = "run plain_env ?xs (createOutput' (Some True) test_clock)"
  have tk: "ticks ?c = 2" by (simp only: debug_history) simp
  have h1: "\<not> debugEnabled (createOutput' None test_clock)" by (simp add: createOutput'_def)
  have h2: "sublist ''[debug]'' (bold plain_env ''[debug]'')" by (simp add: plain_env_def)
  have h3: "sublist (toISOString (test_clock 2))
              (grey plain_env (''['' @ toISOString (test_clock 2) @ '']''))"
    using sublist_appendI [of "toISOString (test_clock 2)" "''[''" "'']''"]
    by (simp add: plain_env_def)
  have h4: "test_clock 2 \<le> max_time" by (simp add: test_clock_def max_time_def)
  have l: "debug_line plain_env (test_clock 2) ''hello''
             = ''> [debug] [2026-11-02T12:00:03.000Z] hello'' @ newline"
    by (simp add: debug_line_def plain_env_def test_clock_2)
  note t = debug_writes_tagged_timestamp
             [of "createOutput' None test_clock" plain_env "''hello''" ?xs test_clock,
              unfolded Let_def tk]
  from t h1 have a: "debug plain_env ''hello'' (createOutput' None test_clock)
      = createOutput' None test_clock" by (elim conjE) (erule mp)
  from t have b: "new_effects ?c (debug plain_env ''hello'' ?c)
      = [Write (debug_line plain_env (test_clock 2) ''hello'')]" by (elim conjE)
  from t h2 have c: "sublist ''[debug]'' (debug_line plain_env (test_clock 2) ''hello'')"
    by (elim conjE) (erule mp)
  from t h3 have d: "sublist (toISOString (test_clock 2)) (debug_line plain_env (test_clock 2) ''hello'')"
    by (elim conjE) (erule mp)
  from t h4 have e: "iso8601_wf (toISOString (test_clock 2))"
    by (elim conjE) (erule mp)
  from h1 h2 h3 h4 a b c d e show ?thesis
    by (simp only: l test_clock_2 simp_thms)
qed


subsection \<open>\<open>time\<close> and a task that succeeds\<close>

text \<open>
  Claim C5. When the task succeeds with \<open>r\<close>: without debug mode \<open>time\<close> returns
  \<open>r\<close> and leaves the channel as it found it, so it writes no trace. With debug
  mode, after any sequence of calls on a channel created with the debug option,
  \<open>time\<close> returns \<open>r\<close> and writes two lines, the start trace and the end trace; the
  end trace carries, in brackets, the elapsed time \<open>d\<close> between the two readings
  of \<open>Date.now()\<close>. For \<open>d < 1000\<close> that is the decimal numeral of \<open>d\<close> followed by
  \<open>ms\<close>. For \<open>d \<ge> 1000\<close> (and no larger than a time value can be) it is a number of
  seconds with exactly two digits after the point, followed by \<open>s\<close>, and the
  hundredths of a second \<open>n\<close> it shows are \<open>d / 10\<close> rounded to a nearest integer:
  \<open>10 n\<close> differs from \<open>d\<close> by at most 5.
\<close>

theorem time_reports_elapsed:
  assumes "promise_of fn = Inr (Resolved r)"
  shows "(\<not> debugEnabled c \<longrightarrow> time E lbl fn c = (Inr r, c))
     \<and> (let c' = run E xs (createOutput' (Some True) clk); k = ticks c';
            d = int (clk (k + 2)) - int (clk (k + 1))
        in fst (time E lbl fn c') = Inr r
           \<and> new_effects c' (snd (time E lbl fn c')) =
               [Write (debug_line E (clk k) (label_of lbl None)),
                Write (debug_line E (clk (k + 3))
                         (label_of lbl (Some r) @ '' '' @ grey E (''['' @ durationPretty d @ '']'')))]
           \<and> (d < 1000 \<longrightarrow> durationPretty d = show_int d @ ''ms'')
           \<and> (1000 \<le> d \<and> d \<le> int max_time \<longrightarrow>
                (\<exists>n. durationPretty d = show_nat (n div 100) @ ''.'' @ digits 2 (n mod 100) @ ''s''
                    \<and> 10 * int n \<le> d + 5 \<and> d \<le> 10 * int n + 5)))"
proof -
  let ?c = "run E xs (createOutput' (Some True) clk)"
  have rest: "at_rest ?c" by (rule run_debug_at_rest)
  have clk: "times ?c = clk" by (simp add: createOutput'_def)
  note t = time_at_rest [OF rest assms, of E lbl, unfolded clk]
  have "fst (time E lbl fn ?c) = Inr r" by (simp only: t fst_conv)
  moreover have "new_effects ?c (snd (time E lbl fn ?c)) =
               [Write (debug_line E (clk (ticks ?c)) (label_of lbl None)),
                Write (debug_line E (clk (ticks ?c + 3))
                         (label_of lbl (Some r) @ '' '' @
                          grey E (''['' @ durationPretty (int (clk (ticks ?c + 2)) - int (clk (ticks ?c + 1))) @ '']'')))]"
    by (simp only: t snd_conv new_effects_def) simp
  moreover have "\<not> debugEnabled c \<longrightarrow> time E lbl fn c = (Inr r, c)"
    using assms by (simp add: time_def)
  moreover have "d < 1000 \<longrightarrow> durationPretty d = show_int d @ ''ms''" for d
    by (simp add: durationPretty_def)
  ultimately show ?thesis
    using durationPretty_seconds by (simp only: Let_def) blast
qed

theorem time_reports_elapsed_witness:
  "promise_of (Promise (Resolved 5) :: (unit, nat) task) = Inr (Resolved 5)
   \<and> \<not> debugEnabled (createOutput' None test_clock)
   \<and> time plain_env (Label ''X'') (Promise (Resolved 5) :: (unit, nat) task)
        (createOutput' None test_clock) = (Inr 5, createOutput' None test_clock)
   \<and> fst (time plain_env (Label ''X'') (Promise (Resolved 5) :: (unit, nat) task)
            (run plain_env [Spinner ''Deploying'' None, StopSpinner :: (unit, unit, unit) call]
               (createOutput' (Some True) test_clock))) = Inr 5
   \<and> new_effects
        (run plain_env [Spinner ''Deploying'' None, StopSpinner :: (unit, unit, unit) call]
           (createOutput' (Some True) test_clock))
        (snd (time plain_env (Label ''X'') (Promise (Resolved 5) :: (unit, nat) task)
               (run plain_env [Spinner ''Deploying'' None, StopSpinner :: (unit, unit, unit) call]
                  (createOutput' (Some True) test_clock))))
       = [Write (''> [debug] [2026-11-02T12:00:03.000Z] X'' @ newline),
          Write (''> [debug] [2026-11-02T12:00:07.500Z] X [1.50s]'' @ newline)]
   \<and> (1000 :: int) \<le> 1500 \<and> 1500 \<le> int max_time \<and> durationPretty 1500 = ''1.50s''
   \<and> (250 :: int) < 1000 \<and> durationPretty 250 = ''250ms''"
proof -
  let ?fn = "Promise (Resolved 5) :: (unit, nat) task"
  let ?lbl = "Label ''X'' :: nat label"
  let ?xs = "[Spinner ''Deploying'' None, StopSpinner :: (unit, unit, unit) call]"
  let ?c = "run plain_env ?xs (createOutput' (Some True) test_clock)"
  let ?q = "createOutput' None test_clock"
  have p: "promise_of ?fn = Inr (Resolved 5)" by simp
  have n: "\<not> debugEnabled ?q" by (simp add: createOutput'_def)
  have tk: "ticks ?c = 2" by (simp only: debug_history) simp
  have d: "int (test_clock (2 + 2)) - int (test_clock (2 + 1)) = 1500"
    by (simp add: test_clock_def)
  have k: "test_clock (2 + 3) = test_clock 5" by simp
  note t = time_reports_elapsed [OF p, of ?q plain_env ?lbl ?xs test_clock,
      unfolded Let_def tk d k]
  have a: "time plain_env ?lbl ?fn ?q = (Inr 5, ?q)"
    by (rule t [THEN conjunct1, THEN mp, OF n])
  have b: "fst (time plain_env ?lbl ?fn ?c) = Inr 5"
    by (rule t [THEN conjunct2, THEN conjunct1])
  have r: "(1000 :: int) \<le> 1500 \<and> 1500 \<le> int max_time" by (simp add: max_time_def)
  from t [THEN conjunct2, THEN conjunct2, THEN conjunct2, THEN conjunct2, THEN mp, OF r]
  obtain m where m: "durationPretty 1500 = show_nat (m div 100) @ ''.'' @ digits 2 (m mod 100) @ ''s''"
      "10 * int m \<le> 1500 + 5" "1500 \<le> 10 * int m + 5"
    by blast
  from m(2,3) have "m = 150" by linarith
  with m(1) have s: "durationPretty 1500 = ''1.50s''"
    by (simp add: show_nat.simps digits_unfold digit_char_def)
  have "new_effects ?c (snd (time plain_env ?lbl ?fn ?c)) =
      [Write (debug_line plain_env (test_clock 2) (label_of ?lbl None)),
       Write (debug_line plain_env (test_clock 5)
                (label_of ?lbl (Some 5) @ '' '' @ grey plain_env (''['' @ durationPretty 1500 @ '']'')))]"
    by (rule t [THEN conjunct2, THEN conjunct2, THEN conjunct1])
  then have c: "new_effects ?c (snd (time plain_env ?lbl ?fn ?c)) =
      [Write (''> [debug] [2026-11-02T12:00:03.000Z] X'' @ newline),
       Write (''> [debug] [2026-11-02T12:00:07.500Z] X [1.50s]'' @ newline)]"
    by (simp add: debug_line_def plain_env_def test_clock_2 test_clock_5 s)
  have tk0: "ticks (run plain_env ([] :: (unit, unit, unit) call list)
                (createOutput' (Some True) (\<lambda>n. 250 * n))) = 0"
    by (simp add: createOutput'_def)
  have d0: "int (250 * (0 + 2)) - int (250 * (0 + 1)) = 250" by simp
  note u = time_reports_elapsed [OF p, of ?q plain_env ?lbl "[] :: (unit, unit, unit) call list"
      "\<lambda>n. 250 * n", unfolded Let_def tk0 d0]
  have q: "(250 :: int) < 1000" by simp
  have "durationPretty 250 = show_int 250 @ ''ms''"
    by (rule u [THEN conjunct2, THEN conjunct2, THEN conjunct2, THEN conjunct1, THEN mp, OF q])
  then have e: "durationPretty 250 = ''250ms''"
    by (simp add: show_int_def show_nat.simps digit_char_def)
  from p n a b c r s q e show ?thesis by blast
qed


subsection \<open>The action line of \<open>warn\<close> and \<open>error\<close>\<close>

text \<open>
  Claim C3, as the specification states it, fails for a slug that is the empty
  string: such a slug is not \<open>null\<close>, yet \<open>warn\<close> and \<open>error\<close> render no address
  for it and, without a link, no action line at all. It fails in the same way for a
  link that is the empty string: no action line is rendered for it.
\<close>

theorem empty_slug_action_line_counterexample:
  "new_effects (createOutput' None test_clock)
     (warn plain_env ''oops'' (Val []) Null Undefined None (createOutput' None test_clock))
     = [Write ''[WARN! oops]'', Write newline]
   \<and> \<not> sublist ''https://err.sh/vercel/'' ''[WARN! oops]''
   \<and> new_effects (createOutput' None test_clock)
       (error plain_env ''oops'' (Some []) None None (createOutput' None test_clock))
     = [Write (''Error! oops'' @ newline)]
   \<and> new_effects (createOutput' None test_clock)
       (warn plain_env ''oops'' Null (Val []) Undefined None (createOutput' None test_clock))
     = [Write ''[WARN! oops]'', Write newline]
   \<and> new_effects (createOutput' None test_clock)
       (error plain_env ''oops'' None (Some []) None (createOutput' None test_clock))
     = [Write (''Error! oops'' @ newline)]"
  by (simp add: warn_effects error_effects plain_channel_quiet plain_env_simps sublist_Cons_right)

text \<open>
  Claim C3, amended. After whatever \<open>stopSpinner\<close> adds, \<open>warn\<close> writes its box and
  a newline, and \<open>error\<close> writes its line "Error!" and at most one action line.
  With a non-empty slug the action line is the action label, a colon, and the link
  renderer's output for exactly \<open>https://err.sh/vercel/\<close> followed by the slug,
  whatever link is supplied with it; the action line, and the text \<open>warn\<close> puts in
  its box, contain that address when the link renderer keeps it visible, and so
  does the box when the box renderer keeps its text visible. With a slug that is
  left out, \<open>null\<close> or empty, and a non-empty link, the same holds with the link in
  the place of the address: the link renderer is applied to the link itself.
  With neither a non-empty slug nor a non-empty link there is no action line: the
  box holds the message only, and \<open>error\<close> writes one line.
\<close>

theorem warn_error_action_line:
  "(sl \<noteq> [] \<longrightarrow>
      (let u = ''https://err.sh/vercel/'' @ sl;
           line = to_string (default_to (Val ''Learn More'') act) @ '': '' @ renderLink E u;
           text = bold_yellow E ''WARN! '' @ str @ newline @ line;
           eline = bold E (case act' of None \<Rightarrow> ''Learn More'' | Some a \<Rightarrow> a) @ '': ''
                     @ renderLink E u @ newline
       in new_effects c (warn E str (Val sl) lnk act options c)
            = new_effects c (stopSpinner E c) @ [Write (boxen E text options), Write newline]
          \<and> new_effects c (error E str (Some sl) lnk' act' c)
            = new_effects c (stopSpinner E c) @
                [Write (red E ''Error!'' @ '' '' @ str @ newline), Write eline]
          \<and> (sublist u (renderLink E u) \<longrightarrow> sublist u line \<and> sublist u text \<and> sublist u eline)
          \<and> (sublist u (renderLink E u) \<and> sublist text (boxen E text options)
                \<longrightarrow> sublist u (boxen E text options))))
   \<and> (l \<noteq> [] \<and> (slug = Undefined \<or> slug = Null \<or> slug = Val [])
         \<and> (slug' = None \<or> slug' = Some []) \<longrightarrow>
      (let line = to_string (default_to (Val ''Learn More'') act) @ '': '' @ renderLink E l;
           text = bold_yellow E ''WARN! '' @ str @ newline @ line;
           eline = bold E (case act' of None \<Rightarrow> ''Learn More'' | Some a \<Rightarrow> a) @ '': ''
                     @ renderLink E l @ newline
       in new_effects c (warn E str slug (Val l) act options c)
            = new_effects c (stopSpinner E c) @ [Write (boxen E text options), Write newline]
          \<and> new_effects c (error E str slug' (Some l) act' c)
            = new_effects c (stopSpinner E c) @
                [Write (red E ''Error!'' @ '' '' @ str @ newline), Write eline]
          \<and> (sublist l (renderLink E l) \<longrightarrow> sublist l line \<and> sublist l text \<and> sublist l eline)
          \<and> (sublist l (renderLink E l) \<and> sublist text (boxen E text options)
                \<longrightarrow> sublist l (boxen E text options))))
   \<and> ((slug = Undefined \<or> slug = Null \<or> slug = Val [])
         \<and> (lnk0 = Undefined \<or> lnk0 = Null \<or> lnk0 = Val [])
         \<and> (slug' = None \<or> slug' = Some []) \<and> (lnk0' = None \<or> lnk0' = Some []) \<longrightarrow>
      new_effects c (warn E str slug lnk0 act options c)
        = new_effects c (stopSpinner E c) @
            [Write (boxen E (bold_yellow E ''WARN! '' @ str) options), Write newline]
      \<and> new_effects c (error E str slug' lnk0' act' c)
        = new_effects c (stopSpinner E c) @ [Write (red E ''Error!'' @ '' '' @ str @ newline)])"
proof -
  have vis: "sublist u (renderLink E u) \<Longrightarrow>
      sublist u (a @ '': '' @ renderLink E u)
      \<and> sublist u (bold_yellow E ''WARN! '' @ str @ newline @ a @ '': '' @ renderLink E u)
      \<and> sublist u (b @ '': '' @ renderLink E u @ newline)" for u a b
  proof -
    assume h: "sublist u (renderLink E u)"
    have "sublist u ((a @ '': '') @ renderLink E u @ [])"
      using h by (rule sublist_in_middle)
    moreover have "sublist u ((bold_yellow E ''WARN! '' @ str @ newline @ a @ '': '') @ renderLink E u @ [])"
      using h by (rule sublist_in_middle)
    moreover have "sublist u ((b @ '': '') @ renderLink E u @ newline)"
      using h by (rule sublist_in_middle)
    ultimately show ?thesis by simp
  qed
  have box: "sublist u (renderLink E u) \<Longrightarrow> sublist t (boxen E t options) \<Longrightarrow>
      t = bold_yellow E ''WARN! '' @ str @ newline @ a @ '': '' @ renderLink E u \<Longrightarrow>
      sublist u (boxen E t options)" for u a t
    using vis [of u a] by (meson sublist_order.order.trans)
  have A: "new_effects c (warn E str (Val sl) lnk act options c)
            = new_effects c (stopSpinner E c) @
                [Write (boxen E (bold_yellow E ''WARN! '' @ str @ newline
                   @ to_string (default_to (Val ''Learn More'') act) @ '': ''
                   @ renderLink E (''https://err.sh/vercel/'' @ sl)) options), Write newline]
          \<and> new_effects c (error E str (Some sl) lnk' act' c)
            = new_effects c (stopSpinner E c) @
                [Write (red E ''Error!'' @ '' '' @ str @ newline),
                 Write (bold E (case act' of None \<Rightarrow> ''Learn More'' | Some a \<Rightarrow> a) @ '': ''
                     @ renderLink E (''https://err.sh/vercel/'' @ sl) @ newline)]"
    if "sl \<noteq> []"
    using that by (simp add: warn_effects error_effects)
  have B: "new_effects c (warn E str slug (Val l) act options c)
            = new_effects c (stopSpinner E c) @
                [Write (boxen E (bold_yellow E ''WARN! '' @ str @ newline
                   @ to_string (default_to (Val ''Learn More'') act) @ '': ''
                   @ renderLink E l) options), Write newline]
          \<and> new_effects c (error E str slug' (Some l) act' c)
            = new_effects c (stopSpinner E c) @
                [Write (red E ''Error!'' @ '' '' @ str @ newline),
                 Write (bold E (case act' of None \<Rightarrow> ''Learn More'' | Some a \<Rightarrow> a) @ '': ''
                     @ renderLink E l @ newline)]"
    if "l \<noteq> []" "slug = Undefined \<or> slug = Null \<or> slug = Val []" "slug' = None \<or> slug' = Some []"
    using that by (auto simp: warn_effects error_effects)
  have C: "new_effects c (warn E str slug lnk0 act options c)
        = new_effects c (stopSpinner E c) @
            [Write (boxen E (bold_yellow E ''WARN! '' @ str) options), Write newline]
      \<and> new_effects c (error E str slug' lnk0' act' c)
        = new_effects c (stopSpinner E c) @ [Write (red E ''Error!'' @ '' '' @ str @ newline)]"
    if "slug = Undefined \<or> slug = Null \<or> slug = Val []"
       "lnk0 = Undefined \<or> lnk0 = Null \<or> lnk0 = Val []"
       "slug' = None \<or> slug' = Some []" "lnk0' = None \<or> lnk0' = Some []"
    using that by (auto simp: warn_effects error_effects)
  show ?thesis
    unfolding Let_def
    apply (intro conjI impI)
    subgoal using A by blast
    subgoal using A by blast
    subgoal using vis by blast
    subgoal using vis by blast
    subgoal using vis by blast
    subgoal by (erule conjE) (erule box, assumption, rule refl)
    subgoal using B by blast
    subgoal using B by blast
    subgoal using vis by blast
    subgoal using vis by blast
    subgoal using vis by blast
    subgoal by (erule conjE) (erule box, assumption, rule refl)
    subgoal using C by blast
    subgoal using C by blast
    done
qed

theorem warn_error_action_line_witness:
  "''my-slug'' \<noteq> []
   \<and> sublist ''https://err.sh/vercel/my-slug'' (renderLink plain_env ''https://err.sh/vercel/my-slug'')
   \<and> sublist (''WARN! oops'' @ newline @ ''Learn More: https://err.sh/vercel/my-slug'')
        (boxen plain_env (''WARN! oops'' @ newline @ ''Learn More: https://err.sh/vercel/my-slug'') None)
   \<and> sublist (''WARN! oops'' @ newline @ ''Learn More: https://example.com'')
        (boxen plain_env (''WARN! oops'' @ newline @ ''Learn More: https://example.com'') None)
   \<and> new_effects (createOutput' None test_clock)
        (warn plain_env ''oops'' (Val ''my-slug'') (Val ''https://example.com'') Undefined None
           (createOutput' None test_clock))
       = [Write (''[WARN! oops'' @ newline @ ''Learn More: https://err.sh/vercel/my-slug]''),
          Write newline]
   \<and> sublist ''https://err.sh/vercel/my-slug''
        (''[WARN! oops'' @ newline @ ''Learn More: https://err.sh/vercel/my-slug]'')
   \<and> new_effects (createOutput' None test_clock)
        (error plain_env ''oops'' (Some ''my-slug'') (Some ''https://example.com'') None
           (createOutput' None test_clock))
       = [Write (''Error! oops'' @ newline),
          Write (''Learn More: https://err.sh/vercel/my-slug'' @ newline)]
   \<and> sublist ''https://err.sh/vercel/my-slug'' (''Learn More: https://err.sh/vercel/my-slug'' @ newline)
   \<and> ''https://example.com'' \<noteq> []
   \<and> sublist ''https://example.com'' (renderLink plain_env ''https://example.com'')
   \<and> new_effects (createOutput' None test_clock)
        (warn plain_env ''oops'' (Val []) (Val ''https://example.com'') Undefined None
           (createOutput' None test_clock))
       = [Write (''[WARN! oops'' @ newline @ ''Learn More: https://example.com]''), Write newline]
   \<and> sublist ''https://example.com'' (''[WARN! oops'' @ newline @ ''Learn More: https://example.com]'')
   \<and> \<not> sublist ''https://err.sh/vercel/'' (''[WARN! oops'' @ newline @ ''Learn More: https://example.com]'')
   \<and> new_effects (createOutput' None test_clock)
        (error plain_env ''oops'' (Some []) (Some ''https://example.com'') None
           (createOutput' None test_clock))
       = [Write (''Error! oops'' @ newline), Write (''Learn More: https://example.com'' @ newline)]
   \<and> sublist ''https://example.com'' (''Learn More: https://example.com'' @ newline)
   \<and> \<not> sublist ''https://err.sh/vercel/'' (''Learn More: https://example.com'' @ newline)
   \<and> new_effects (createOutput' None test_clock)
        (warn plain_env ''oops'' (Val []) (Val []) Undefined None (createOutput' None test_clock))
       = [Write ''[WARN! oops]'', Write newline]
   \<and> new_effects (createOutput' None test_clock)
        (error plain_env ''oops'' (Some []) (Some []) None (createOutput' None test_clock))
       = [Write (''Error! oops'' @ newline)]
   \<and> new_effects (createOutput' None test_clock)
        (warn plain_env ''oops'' Null Undefined Undefined None (createOutput' None test_clock))
       = [Write ''[WARN! oops]'', Write newline]
   \<and> new_effects (createOutput' None test_clock)
        (error plain_env ''oops'' None None None (createOutput' None test_clock))
       = [Write (''Error! oops'' @ newline)]"
proof -
  let ?q = "createOutput' None test_clock"
  note t = warn_error_action_line [of "''my-slug''" Undefined plain_env "''oops''" None ?q
      "Val ''https://example.com''" None "Some ''https://example.com''"
      "''https://example.com''" "Val []" "Some []" "Val []" "Some []", unfolded Let_def]
  note t' = warn_error_action_line [of "''my-slug''" Undefined plain_env "''oops''" None ?q
      "Val ''https://example.com''" None "Some ''https://example.com''"
      "''https://example.com''" Null None Undefined None, unfolded Let_def]
  have h1: "''my-slug'' \<noteq> []" by simp
  have v1: "sublist (''https://err.sh/vercel/'' @ ''my-slug'')
      (renderLink plain_env (''https://err.sh/vercel/'' @ ''my-slug''))"
    by (simp add: plain_env_simps)
  have h2: "''https://example.com'' \<noteq> [] \<and> (Val [] = Undefined \<or> Val [] = Null \<or> Val [] = (Val [] :: string optional))
      \<and> (Some [] = None \<or> Some [] = (Some [] :: string option))" by simp
  have v2: "sublist ''https://example.com'' (renderLink plain_env ''https://example.com'')"
    by (simp add: plain_env_simps)
  have h3: "(Val [] = Undefined \<or> Val [] = Null \<or> Val [] = (Val [] :: string optional))
      \<and> (Val [] = Undefined \<or> Val [] = Null \<or> Val [] = (Val [] :: string optional))
      \<and> (Some [] = None \<or> Some [] = (Some [] :: string option))
      \<and> (Some [] = None \<or> Some [] = (Some [] :: string option))" by simp
  have h4: "((Null :: string optional) = Undefined \<or> (Null :: string optional) = Null \<or> Null = (Val [] :: string optional))
      \<and> ((Undefined :: string optional) = Undefined \<or> (Undefined :: string optional) = Null \<or> Undefined = (Val [] :: string optional))
      \<and> ((None :: string option) = None \<or> None = (Some [] :: string option))
      \<and> ((None :: string option) = None \<or> None = (Some [] :: string option))" by simp
  note a = t [THEN conjunct1, THEN mp, OF h1]
  note a1 = a [THEN conjunct1]
  note a2 = a [THEN conjunct2, THEN conjunct1]
  note a3 = a [THEN conjunct2, THEN conjunct2, THEN conjunct1, THEN mp, OF v1]
  note b = t [THEN conjunct2, THEN conjunct1, THEN mp, OF h2]
  note b1 = b [THEN conjunct1]
  note b2 = b [THEN conjunct2, THEN conjunct1]
  note b3 = b [THEN conjunct2, THEN conjunct2, THEN conjunct1, THEN mp, OF v2]
  note c = t [THEN conjunct2, THEN conjunct2, THEN mp, OF h3]
  note d = t' [THEN conjunct2, THEN conjunct2, THEN mp, OF h4]
  have ns: "\<not> sublist ''https://err.sh/vercel/''
              (''[WARN! oops'' @ newline @ ''Learn More: https://example.com]'')"
      "\<not> sublist ''https://err.sh/vercel/'' (''Learn More: https://example.com'' @ newline)"
    by (simp_all add: newline_def sublist_Cons_right)
  note s1 = a [THEN conjunct2, THEN conjunct2, THEN conjunct2, THEN mp,
      OF conjI [OF v1 plain_box_visible]]
  note s2 = b [THEN conjunct2, THEN conjunct2, THEN conjunct2, THEN mp,
      OF conjI [OF v2 plain_box_visible]]
  note bx1 = plain_box_visible
      [of "''WARN! oops'' @ newline @ ''Learn More: https://err.sh/vercel/my-slug''" None]
  note bx2 = plain_box_visible
      [of "''WARN! oops'' @ newline @ ''Learn More: https://example.com''" None]
  from a1 a2 a3 b1 b2 b3 c d ns s1 s2 h1 v1 v2 bx1 bx2 show ?thesis
    by (simp add: plain_channel_quiet plain_env_simps)
qed


subsection \<open>\<open>prettyError\<close> and \<open>error\<close>\<close>

text \<open>
  Claim C8, as the specification states it, fails for the empty link: the output is
  then the line "Error!" alone, not two lines.
\<close>

theorem prettyError_empty_link_counterexample:
  "new_effects (createOutput' None test_clock)
     (prettyError plain_env \<lparr>message = ''bad'', link = Some [], action = None\<rparr>
        (createOutput' None test_clock))
     = [Write (''Error! bad'' @ newline)]
   \<and> new_effects (createOutput' None test_clock)
       (error plain_env ''bad'' None (Some []) None (createOutput' None test_clock))
     = [Write (''Error! bad'' @ newline)]"
  by (simp add: prettyError_def error_effects plain_channel_quiet plain_env_simps)


text \<open>
  Claim C8, amended. For every message \<open>m\<close>, every link \<open>l\<close> and every channel,
  \<open>prettyError\<close> on an object with the message \<open>m\<close> and the link \<open>l\<close> returns the
  channel that \<open>error\<close> returns for \<open>m\<close>, no slug, \<open>l\<close> and the default action label,
  whether the label is left out or given as "Learn More". What both add to the
  trace, after whatever \<open>stopSpinner\<close> adds, is the line "Error!" with \<open>m\<close>,
  followed, when \<open>l\<close> is not empty, by the action line with the rendered link.
\<close>

theorem prettyError_is_error:
  "prettyError E \<lparr>message = m, link = Some l, action = None\<rparr> c = error E m None (Some l) None c
   \<and> error E m None (Some l) None c = error E m None (Some l) (Some ''Learn More'') c
   \<and> new_effects c (prettyError E \<lparr>message = m, link = Some l, action = None\<rparr> c)
       = new_effects c (stopSpinner E c) @
           Write (red E ''Error!'' @ '' '' @ m @ newline) #
           (if l = [] then []
            else [Write (bold E ''Learn More'' @ '': '' @ renderLink E l @ newline)])"
  by (simp add: prettyError_def error_effects) (simp add: error_def)


subsection \<open>An empty slug\<close>

text \<open>
  Claim C9. With the empty string as slug, \<open>warn\<close> returns the channel it returns
  for the slug \<open>null\<close> and for a slug left out, and \<open>error\<close> the channel it returns
  for a slug left out. The address \<open>https://err.sh/vercel/\<close> is not built: with a
  non-empty link, the action line is the action label, a colon and the link
  renderer's output for that link; with a link left out, \<open>null\<close> or empty, there is
  no action line.
\<close>

theorem empty_slug_is_no_slug:
  "warn E str (Val []) lnk act options c = warn E str Null lnk act options c
   \<and> warn E str (Val []) lnk act options c = warn E str Undefined lnk act options c
   \<and> error E str (Some []) lnk' act' c = error E str None lnk' act' c
   \<and> (l \<noteq> [] \<longrightarrow>
        new_effects c (warn E str (Val []) (Val l) act options c)
          = new_effects c (stopSpinner E c) @
              [Write (boxen E (bold_yellow E ''WARN! '' @ str @ newline
                         @ to_string (default_to (Val ''Learn More'') act) @ '': ''
                         @ renderLink E l) options),
               Write newline]
        \<and> new_effects c (error E str (Some []) (Some l) act' c)
          = new_effects c (stopSpinner E c) @
              [Write (red E ''Error!'' @ '' '' @ str @ newline),
               Write (bold E (case act' of None \<Rightarrow> ''Learn More'' | Some a \<Rightarrow> a) @ '': ''
                        @ renderLink E l @ newline)])
   \<and> (lnk0 = Undefined \<or> lnk0 = Null \<or> lnk0 = Val [] \<longrightarrow>
        new_effects c (warn E str (Val []) lnk0 act options c)
          = new_effects c (stopSpinner E c) @
              [Write (boxen E (bold_yellow E ''WARN! '' @ str) options), Write newline])
   \<and> (lnk0' = None \<or> lnk0' = Some [] \<longrightarrow>
        new_effects c (error E str (Some []) lnk0' act' c)
          = new_effects c (stopSpinner E c) @ [Write (red E ''Error!'' @ '' '' @ str @ newline)])"
proof -
  have eq: "warn E str (Val []) lnk act options c = warn E str Null lnk act options c"
    "warn E str (Val []) lnk act options c = warn E str Undefined lnk act options c"
    "error E str (Some []) lnk' act' c = error E str None lnk' act' c"
    by (simp_all add: warn_def error_def)
  have "new_effects c (warn E str (Val []) lnk0 act options c)
          = new_effects c (stopSpinner E c) @
              [Write (boxen E (bold_yellow E ''WARN! '' @ str) options), Write newline]"
    if "lnk0 = Undefined \<or> lnk0 = Null \<or> lnk0 = Val []"
    using that by (auto simp: warn_effects)
  moreover have "new_effects c (error E str (Some []) lnk0' act' c)
          = new_effects c (stopSpinner E c) @ [Write (red E ''Error!'' @ '' '' @ str @ newline)]"
    if "lnk0' = None \<or> lnk0' = Some []"
    using that by (auto simp: error_effects)
  ultimately show ?thesis
    using eq by (simp add: warn_effects error_effects)
qed

theorem empty_slug_is_no_slug_witness:
  "''https://example.com'' \<noteq> []
   \<and> new_effects (createOutput' None test_clock)
        (warn plain_env ''oops'' (Val []) (Val ''https://example.com'') Undefined None
           (createOutput' None test_clock))
       = [Write (''[WARN! oops'' @ newline @ ''Learn More: https://example.com]''), Write newline]
   \<and> \<not> sublist ''https://err.sh/vercel/'' (''[WARN! oops'' @ newline @ ''Learn More: https://example.com]'')
   \<and> new_effects (createOutput' None test_clock)
        (error plain_env ''oops'' (Some []) (Some ''https://example.com'') None
           (createOutput' None test_clock))
       = [Write (''Error! oops'' @ newline), Write (''Learn More: https://example.com'' @ newline)]
   \<and> \<not> sublist ''https://err.sh/vercel/'' (''Learn More: https://example.com'' @ newline)
   \<and> new_effects (createOutput' None test_clock)
        (warn plain_env ''oops'' (Val []) Null Undefined None (createOutput' None test_clock))
       = [Write ''[WARN! oops]'', Write newline]
   \<and> \<not> sublist ''https://err.sh/vercel/'' ''[WARN! oops]''
   \<and> new_effects (createOutput' None test_clock)
        (error plain_env ''oops'' (Some []) None None (createOutput' None test_clock))
       = [Write (''Error! oops'' @ newline)]
   \<and> warn plain_env ''oops'' (Val []) (Val ''https://example.com'') Undefined None
         (createOutput' None test_clock)
       = warn plain_env ''oops'' Null (Val ''https://example.com'') Undefined None
           (createOutput' None test_clock)"
proof -
  let ?q = "createOutput' None test_clock"
  note t = empty_slug_is_no_slug [of plain_env "''oops''" "Val ''https://example.com''" Undefined
      None ?q "Some ''https://example.com''" None "''https://example.com''" Null None]
  have h1: "''https://example.com'' \<noteq> []" by simp
  have h2: "(Null :: string optional) = Undefined \<or> (Null :: string optional) = Null
      \<or> Null = (Val [] :: string optional)" by simp
  have h3: "(None :: string option) = None \<or> None = (Some [] :: string option)" by simp
  note e = t [THEN conjunct1]
  note a = t [THEN conjunct2, THEN conjunct2, THEN conjunct2, THEN conjunct1, THEN mp, OF h1]
  note b = t [THEN conjunct2, THEN conjunct2, THEN conjunct2, THEN conjunct2, THEN conjunct1,
      THEN mp, OF h2]
  note c = t [THEN conjunct2, THEN conjunct2, THEN conjunct2, THEN conjunct2, THEN conjunct2,
      THEN mp, OF h3]
  have ns: "\<not> sublist ''https://err.sh/vercel/''
              (''[WARN! oops'' @ newline @ ''Learn More: https://example.com]'')"
      "\<not> sublist ''https://err.sh/vercel/'' (''Learn More: https://example.com'' @ newline)"
      "\<not> sublist ''https://err.sh/vercel/'' ''[WARN! oops]''"
    by (simp_all add: newline_def sublist_Cons_right)
  from e a b c ns h1 show ?thesis
    by (simp add: plain_channel_quiet plain_env_simps)
qed

subsection \<open>\<open>setSpinner\<close> in debug mode\<close>

text \<open>
  Claim C2 says that in debug mode \<open>setSpinner\<close> records the message and emits a
  debug trace. The code assigns the message and then calls \<open>debug\<close>, whose \<open>print\<close>
  calls \<open>stopSpinner\<close>, which finds the message just assigned, writes "Spinner
  stopped" for it and clears it, before "Spinner invoked" is written. Computed for
  \<open>spinner('Deploying')\<close> on a new channel in debug mode: the recorded message is
  empty afterwards, two lines are written, "stopped" before "invoked", and a
  later \<open>stopSpinner\<close> writes nothing. Without debug mode the same call keeps the
  message. (That at most one handle is active after any sequence of calls is the
  lemma \<open>one_active_handle\<close>.)
\<close>

theorem setSpinner_debug_loses_message:
  "spinnerMessage (setSpinner plain_env ''Deploying'' None debug_channel) = []
   \<and> new_effects debug_channel (setSpinner plain_env ''Deploying'' None debug_channel)
       = [Write (''> [debug] [2026-11-02T12:00:01.500Z] Spinner stopped (Deploying)'' @ newline),
          Write (''> [debug] [2026-11-02T12:00:00.000Z] Spinner invoked (Deploying) with a 300ms delay''
                   @ newline)]
   \<and> new_effects (setSpinner plain_env ''Deploying'' None debug_channel)
        (stopSpinner plain_env (setSpinner plain_env ''Deploying'' None debug_channel)) = []
   \<and> spinner (setSpinner plain_env ''Deploying'' None debug_channel) = None
   \<and> spinnerMessage (setSpinner plain_env ''Deploying'' None (createOutput' None test_clock))
       = ''Deploying''"
proof -
  have a: "spinnerMessage (setSpinner plain_env ''Deploying'' None debug_channel) = []"
    and b: "new_effects debug_channel (setSpinner plain_env ''Deploying'' None debug_channel)
       = [Write (''> [debug] [2026-11-02T12:00:01.500Z] Spinner stopped (Deploying)'' @ newline),
          Write (''> [debug] [2026-11-02T12:00:00.000Z] Spinner invoked (Deploying) with a 300ms delay''
                   @ newline)]"
    and c: "spinner (setSpinner plain_env ''Deploying'' None debug_channel) = None"
    by (simp_all only: debug_spinner_run)
       (simp_all add: debug_channel_def createOutput'_def new_effects_def)
  have "at_rest (setSpinner plain_env ''Deploying'' None debug_channel)"
    by (rule setSpinner_at_rest) (simp add: at_rest_def debug_channel_def createOutput'_def)
  then have d: "new_effects (setSpinner plain_env ''Deploying'' None debug_channel)
        (stopSpinner plain_env (setSpinner plain_env ''Deploying'' None debug_channel)) = []"
    by (simp add: at_rest_def stopSpinner_quiet new_effects_def)
  have e: "spinnerMessage (setSpinner plain_env ''Deploying'' None (createOutput' None test_clock))
       = ''Deploying''"
    using spinning_channel_eq by (simp add: spinning_channel_def)
  from a b c d e show ?thesis by blast
qed


end
